theory Spec2Isabelle
  imports Main
begin

section \<open>Status condition merge (pkg/helper/helpers.go)\<close>

subsection \<open>Data model\<close>

text \<open>
  \<^verbatim>\<open>metav1.Time\<close> is modelled as a natural number; the zero value of the Go type
  (\<^verbatim>\<open>IsZero()\<close>) is \<open>0\<close>. \<^verbatim>\<open>time.Now()\<close> reads a clock: the clock is a function
  from the number of readings taken so far to the instant returned, and every function
  that may call \<^verbatim>\<open>time.Now()\<close> takes the clock and the current reading count and
  returns the new count, so two calls may see two different instants.
\<close>

type_synonym Time = nat
type_synonym clock = "nat \<Rightarrow> Time"

text \<open>\<^verbatim>\<open>metav1.Condition\<close>.\<close>

record Condition =
  Type :: string
  Status :: string
  ObservedGeneration :: int
  LastTransitionTime :: Time
  Reason :: string
  Message :: string

text \<open>\<^verbatim>\<open>workapiv1.ManifestResourceMeta\<close>; \<^verbatim>\<open>Ordinal\<close> is an int32 that is only copied
  and compared.\<close>

record ManifestResourceMeta =
  Ordinal :: int
  Group :: string
  Version :: string
  Kind :: string
  Resource :: string
  Name :: string
  Namespace :: string

text \<open>\<^verbatim>\<open>workapiv1.StatusFeedbackResult\<close>: a list of named feedback values.\<close>

datatype FieldValue = IntegerValue int | StringValue string | BooleanValue bool

type_synonym StatusFeedbackResult = "(string \<times> FieldValue) list"

text \<open>\<^verbatim>\<open>workapiv1.ManifestCondition\<close>.\<close>

record ManifestCondition =
  ResourceMeta :: ManifestResourceMeta
  StatusFeedbacks :: StatusFeedbackResult
  Conditions :: "Condition list"

subsection \<open>\<^verbatim>\<open>meta.SetStatusCondition\<close> (k8s.io/apimachinery)\<close>

text \<open>
  Modelled from the spec: \<^verbatim>\<open>meta.FindStatusCondition\<close>, which
  \<^verbatim>\<open>meta.SetStatusCondition\<close> uses, is defined in the k8s.io/apimachinery dependency
  and is not under src/. A condition is looked up by its name (its \<^verbatim>\<open>Type\<close>); the
  result is a pointer to the first condition of that name, modelled as the index of
  that element, or \<^verbatim>\<open>nil\<close>.
\<close>

fun FindStatusCondition :: "Condition list \<Rightarrow> string \<Rightarrow> nat option" where
  "FindStatusCondition [] conditionType = None"
| "FindStatusCondition (c # cs) conditionType =
     (if Type c = conditionType then Some 0
      else map_option Suc (FindStatusCondition cs conditionType))"

text \<open>
  Modelled from the spec: \<^verbatim>\<open>meta.SetStatusCondition\<close>, to which
  \<^verbatim>\<open>MergeStatusConditions\<close> delegates, is defined in the k8s.io/apimachinery
  dependency and is not under src/. The spec has, for the merge of conditions: same
  name: keep the old timestamp if the status is unchanged, else new timestamp and new
  status, reason and message; new name: appended with a fresh timestamp. What these
  words leave open follows the library, as the repository's tests pin it
  (\<^verbatim>\<open>TestUpdateStatusCondition\<close>: "add to non-conflicting", "change existing status",
  "leave existing transition time"): reason, message and observed generation of a found
  condition are always taken from the new one; the new timestamp is the one the new
  condition carries when that is not zero, and \<^verbatim>\<open>time.Now()\<close> otherwise; a condition
  is never removed.
\<close>

definition SetStatusCondition ::
  "clock \<Rightarrow> nat \<Rightarrow> Condition list \<Rightarrow> Condition \<Rightarrow> Condition list \<times> nat" where
  "SetStatusCondition clk k conditions newCondition =
     (case FindStatusCondition conditions (Type newCondition) of
        None \<Rightarrow>
          if LastTransitionTime newCondition = 0
          then (conditions @ [newCondition\<lparr>LastTransitionTime := clk k\<rparr>], Suc k)
          else (conditions @ [newCondition], k)
      | Some i \<Rightarrow>
          let existingCondition = conditions ! i;
              (flipped, k') =
                (if Status existingCondition \<noteq> Status newCondition
                 then (if LastTransitionTime newCondition \<noteq> 0
                       then (existingCondition\<lparr>Status := Status newCondition,
                               LastTransitionTime := LastTransitionTime newCondition\<rparr>, k)
                       else (existingCondition\<lparr>Status := Status newCondition,
                               LastTransitionTime := clk k\<rparr>, Suc k))
                 else (existingCondition, k))
          in (conditions[i := flipped\<lparr>Reason := Reason newCondition,
                                       Message := Message newCondition,
                                       ObservedGeneration := ObservedGeneration newCondition\<rparr>],
              k'))"

subsection \<open>\<^verbatim>\<open>MergeStatusConditions\<close>\<close>

text \<open>The \<^verbatim>\<open>for _, condition := range newConditions\<close> loop over the accumulator
  \<^verbatim>\<open>merged\<close>.\<close>

fun setStatusConditions ::
  "clock \<Rightarrow> nat \<Rightarrow> Condition list \<Rightarrow> Condition list \<Rightarrow> Condition list \<times> nat" where
  "setStatusConditions clk k merged [] = (merged, k)"
| "setStatusConditions clk k merged (condition # rest) =
     (case SetStatusCondition clk k merged condition of
        (merged', k') \<Rightarrow> setStatusConditions clk k' merged' rest)"

definition MergeStatusConditions ::
  "clock \<Rightarrow> nat \<Rightarrow> Condition list \<Rightarrow> Condition list \<Rightarrow> Condition list \<times> nat" where
  "MergeStatusConditions clk k conditions newConditions =
     setStatusConditions clk k ([] @ conditions) newConditions"

subsection \<open>\<^verbatim>\<open>MergeManifestConditions\<close>\<close>

definition resetOrdinal :: "ManifestResourceMeta \<Rightarrow> ManifestResourceMeta" where
  "resetOrdinal m =
     \<lparr>Ordinal = 0, Group = Group m, Version = Version m, Kind = Kind m,
      Resource = Resource m, Name = Name m, Namespace = Namespace m\<rparr>"

text \<open>The zero value \<^verbatim>\<open>workapiv1.ManifestResourceMeta{}\<close>.\<close>

definition zeroResourceMeta :: ManifestResourceMeta where
  "zeroResourceMeta =
     \<lparr>Ordinal = 0, Group = [], Version = [], Kind = [], Resource = [], Name = [],
      Namespace = []\<rparr>"

definition mergeManifestCondition ::
  "clock \<Rightarrow> nat \<Rightarrow> ManifestCondition \<Rightarrow> ManifestCondition \<Rightarrow> ManifestCondition \<times> nat" where
  "mergeManifestCondition clk k condition newCondition =
     (case MergeStatusConditions clk k (Conditions condition) (Conditions newCondition) of
        (cs, k') \<Rightarrow>
          (\<lparr>ResourceMeta = ResourceMeta newCondition,
            StatusFeedbacks = StatusFeedbacks condition,
            Conditions = cs\<rparr>, k'))"

type_synonym metaIndex = "ManifestResourceMeta \<rightharpoonup> ManifestCondition"

text \<open>
  The first loop of \<^verbatim>\<open>MergeManifestConditions\<close>: it fills \<^verbatim>\<open>metaIndex\<close> and
  \<^verbatim>\<open>metaWithoutOridinalIndex\<close> and collects in \<^verbatim>\<open>duplicated\<close> every ordinal-free key
  seen while already indexed.
\<close>

fun buildIndices ::
  "ManifestCondition list \<Rightarrow> metaIndex \<times> metaIndex \<times> ManifestResourceMeta list \<Rightarrow>
   metaIndex \<times> metaIndex \<times> ManifestResourceMeta list" where
  "buildIndices [] acc = acc"
| "buildIndices (condition # rest) (metaIndex, metaWithoutOridinalIndex, duplicated) =
     (let metaIndex' = metaIndex(ResourceMeta condition \<mapsto> condition);
          metaWithoutOridinal = resetOrdinal (ResourceMeta condition)
      in if metaWithoutOridinal \<noteq> zeroResourceMeta
         then (if metaWithoutOridinalIndex metaWithoutOridinal \<noteq> None
               then buildIndices rest
                      (metaIndex', metaWithoutOridinalIndex, duplicated @ [metaWithoutOridinal])
               else buildIndices rest
                      (metaIndex', metaWithoutOridinalIndex(metaWithoutOridinal \<mapsto> condition),
                       duplicated))
         else buildIndices rest (metaIndex', metaWithoutOridinalIndex, duplicated))"

text \<open>The second loop: \<^verbatim>\<open>delete(metaWithoutOridinalIndex, metaWithoutOridinal)\<close> for every
  collected duplicate.\<close>

fun removeDuplicated :: "ManifestResourceMeta list \<Rightarrow> metaIndex \<Rightarrow> metaIndex" where
  "removeDuplicated [] metaWithoutOridinalIndex = metaWithoutOridinalIndex"
| "removeDuplicated (metaWithoutOridinal # rest) metaWithoutOridinalIndex =
     removeDuplicated rest (metaWithoutOridinalIndex(metaWithoutOridinal := None))"

text \<open>The inner loop of the no-match branch: every condition of the new record gets
  its own \<^verbatim>\<open>time.Now()\<close>.\<close>

fun stampConditions :: "clock \<Rightarrow> nat \<Rightarrow> Condition list \<Rightarrow> Condition list \<times> nat" where
  "stampConditions clk k [] = ([], k)"
| "stampConditions clk k (c # cs) =
     (case stampConditions clk (Suc k) cs of
        (cs', k') \<Rightarrow> (c\<lparr>LastTransitionTime := clk k\<rparr> # cs', k'))"

text \<open>The body of the third loop, for one record of \<^verbatim>\<open>newConditions\<close>: the record
  appended to \<^verbatim>\<open>merged\<close>. (In the no-match branch the Go code writes the timestamps
  through the slice it was given, so the caller's \<^verbatim>\<open>newConditions\<close> see them too; the
  model returns the result only.)\<close>

definition mergeOne ::
  "clock \<Rightarrow> nat \<Rightarrow> metaIndex \<Rightarrow> metaIndex \<Rightarrow> ManifestCondition \<Rightarrow> ManifestCondition \<times> nat" where
  "mergeOne clk k metaIndex metaWithoutOridinalIndex newCondition =
     (let found =
            (case metaIndex (ResourceMeta newCondition) of
               Some condition \<Rightarrow> Some condition
             | None \<Rightarrow> metaWithoutOridinalIndex (resetOrdinal (ResourceMeta newCondition)))
      in case found of
           Some condition \<Rightarrow> mergeManifestCondition clk k condition newCondition
         | None \<Rightarrow>
             (case stampConditions clk k (Conditions newCondition) of
                (cs, k') \<Rightarrow> (newCondition\<lparr>Conditions := cs\<rparr>, k')))"

fun mergeLoop ::
  "clock \<Rightarrow> nat \<Rightarrow> metaIndex \<Rightarrow> metaIndex \<Rightarrow> ManifestCondition list \<Rightarrow>
   ManifestCondition list \<Rightarrow> ManifestCondition list \<times> nat" where
  "mergeLoop clk k metaIndex metaWithoutOridinalIndex merged [] = (merged, k)"
| "mergeLoop clk k metaIndex metaWithoutOridinalIndex merged (newCondition # rest) =
     (case mergeOne clk k metaIndex metaWithoutOridinalIndex newCondition of
        (m, k') \<Rightarrow>
          mergeLoop clk k' metaIndex metaWithoutOridinalIndex (merged @ [m]) rest)"

definition MergeManifestConditions ::
  "clock \<Rightarrow> nat \<Rightarrow> ManifestCondition list \<Rightarrow> ManifestCondition list \<Rightarrow>
   ManifestCondition list \<times> nat" where
  "MergeManifestConditions clk k conditions newConditions =
     (case buildIndices conditions (Map.empty, Map.empty, []) of
        (metaIndex, metaWithoutOridinalIndex, duplicated) \<Rightarrow>
          mergeLoop clk k metaIndex (removeDuplicated duplicated metaWithoutOridinalIndex)
            [] newConditions)"

section \<open>Errors returned by the API clients and by the components\<close>

text \<open>
  \<^verbatim>\<open>apierrors.IsForbidden\<close>, \<^verbatim>\<open>IsNotFound\<close>, \<^verbatim>\<open>IsConflict\<close> and \<^verbatim>\<open>IsAlreadyExists\<close>
  classify an error by the status reason and the HTTP code it carries
  (\<^verbatim>\<open>apierrors.reasonAndCodeForError\<close>, which looks through wrapped errors). An error of
  a client is either an API status error with its reason, code and message, or any
  other error (transport, timeout), whose reason is unknown and whose code is 0.
  \<^verbatim>\<open>metav1.StatusReason\<close> is a string type.
\<close>

type_synonym StatusReason = string

definition StatusReasonUnknown :: StatusReason where
  "StatusReasonUnknown = []"

definition StatusReasonForbidden :: StatusReason where
  "StatusReasonForbidden = ''Forbidden''"

definition StatusReasonNotFound :: StatusReason where
  "StatusReasonNotFound = ''NotFound''"

definition StatusReasonAlreadyExists :: StatusReason where
  "StatusReasonAlreadyExists = ''AlreadyExists''"

definition StatusReasonConflict :: StatusReason where
  "StatusReasonConflict = ''Conflict''"

text \<open>The reasons \<^verbatim>\<open>apierrors\<close> knows; for any other reason (the unknown reason among
  them) the HTTP code decides.\<close>

definition knownReasons :: "StatusReason list" where
  "knownReasons =
     [''Unauthorized'', ''Forbidden'', ''NotFound'', ''AlreadyExists'', ''Conflict'', ''Gone'',
      ''Invalid'', ''ServerTimeout'', ''Timeout'', ''TooManyRequests'', ''BadRequest'',
      ''MethodNotAllowed'', ''NotAcceptable'', ''RequestEntityTooLarge'',
      ''UnsupportedMediaType'', ''InternalError'', ''Expired'', ''ServiceUnavailable'']"

datatype clientError = StatusError StatusReason int string | TransportError string

text \<open>
  The errors the components return: \<^verbatim>\<open>fmt.Errorf\<close> without a cause, \<^verbatim>\<open>fmt.Errorf\<close>
  wrapping a cause with \<^verbatim>\<open>%w\<close>, \<^verbatim>\<open>*NotAllowedError\<close> (message of \<^verbatim>\<open>Err\<close> and
  \<^verbatim>\<open>RequeueTime\<close> in nanoseconds, as \<^verbatim>\<open>time.Duration\<close> counts), and a client's
  error passed on as it is.
\<close>

datatype error =
    Errorf string
  | Wrapf string error
  | NotAllowedError string int
  | ClientError clientError

definition Second :: int where
  "Second = 1000000000"

fun reasonAndCodeForError :: "error \<Rightarrow> StatusReason \<times> int" where
  "reasonAndCodeForError (ClientError (StatusError r code msg)) = (r, code)"
| "reasonAndCodeForError (ClientError (TransportError msg)) = (StatusReasonUnknown, 0)"
| "reasonAndCodeForError (Wrapf msg e) = reasonAndCodeForError e"
| "reasonAndCodeForError (Errorf msg) = (StatusReasonUnknown, 0)"
| "reasonAndCodeForError (NotAllowedError msg d) = (StatusReasonUnknown, 0)"

definition ReasonForError :: "error \<Rightarrow> StatusReason" where
  "ReasonForError e = fst (reasonAndCodeForError e)"

definition IsForbidden :: "error \<Rightarrow> bool" where
  "IsForbidden e =
     (case reasonAndCodeForError e of
        (reason, code) \<Rightarrow>
          if reason = StatusReasonForbidden then True
          else if reason \<notin> set knownReasons \<and> code = 403 then True
          else False)"

definition IsNotFound :: "error \<Rightarrow> bool" where
  "IsNotFound e =
     (case reasonAndCodeForError e of
        (reason, code) \<Rightarrow>
          if reason = StatusReasonNotFound then True
          else if reason \<notin> set knownReasons \<and> code = 404 then True
          else False)"

definition IsAlreadyExists :: "error \<Rightarrow> bool" where
  "IsAlreadyExists e = (ReasonForError e = StatusReasonAlreadyExists)"

definition IsConflict :: "error \<Rightarrow> bool" where
  "IsConflict e =
     (case reasonAndCodeForError e of
        (reason, code) \<Rightarrow>
          if reason = StatusReasonConflict then True
          else if reason \<notin> set knownReasons \<and> code = 409 then True
          else False)"

section \<open>Objects of the managed cluster\<close>

text \<open>\<^verbatim>\<open>metav1.OwnerReference\<close>.\<close>

record OwnerReference =
  ownerAPIVersion :: string
  ownerKind :: string
  ownerName :: string
  ownerUID :: string
  ownerController :: "bool option"
  ownerBlockOwnerDeletion :: "bool option"

text \<open>The metadata of an \<^verbatim>\<open>unstructured.Unstructured\<close> object that the code reads.\<close>

record Unstructured =
  objUID :: string
  objResourceVersion :: string
  objNamespace :: string
  objName :: string
  objOwnerReferences :: "OwnerReference list"
  objDeletionTimestamp :: "Time option"

record GroupVersionResource =
  gvrGroup :: string
  gvrVersion :: string
  gvrResource :: string

text \<open>\<^verbatim>\<open>GroupVersionResource.String()\<close>, which \<^verbatim>\<open>%v\<close> prints.\<close>

definition gvrString :: "GroupVersionResource \<Rightarrow> string" where
  "gvrString gvr = gvrGroup gvr @ ''/'' @ gvrVersion gvr @ '', Resource='' @ gvrResource gvr"

section \<open>Executor authorization (package auth)\<close>

type_synonym ExecuteAction = string

definition ApplyAction :: ExecuteAction where
  "ApplyAction = ''Apply''"

definition DeleteAction :: ExecuteAction where
  "DeleteAction = ''Delete''"

record ManifestWorkSubjectServiceAccount =
  saNamespace :: string
  saName :: string

record ManifestWorkExecutorSubject =
  subjectType :: string
  ServiceAccount :: "ManifestWorkSubjectServiceAccount option"

record ManifestWorkExecutor =
  Subject :: ManifestWorkExecutorSubject

definition ExecutorSubjectTypeServiceAccount :: string where
  "ExecutorSubjectTypeServiceAccount = ''ServiceAccount''"

record ResourceAttributes =
  raNamespace :: string
  raVerb :: string
  raGroup :: string
  raVersion :: string
  raResource :: string
  raSubresource :: string
  raName :: string

text \<open>\<^verbatim>\<open>authorizationv1.SubjectAccessReview\<close>: the fields of its \<^verbatim>\<open>Spec\<close>.\<close>

record SubjectAccessReview =
  sarResourceAttributes :: ResourceAttributes
  sarUser :: string
  sarGroups :: "string list"

text \<open>
  The clients. \<^verbatim>\<open>kubeClient\<close> answers a \<^verbatim>\<open>SubjectAccessReviews().Create\<close> with an error
  or with \<^verbatim>\<open>Status.Allowed\<close>. A dynamic client answers the dry-run \<^verbatim>\<open>Create\<close> of an
  object with an error or with \<^verbatim>\<open>nil\<close>. \<^verbatim>\<open>newImpersonateClientFunc\<close> builds a dynamic
  client for a user name from the configuration, or fails.
\<close>

type_synonym restConfig = string
type_synonym dynamicClient = "GroupVersionResource \<Rightarrow> string \<Rightarrow> Unstructured \<Rightarrow> clientError option"

record sarValidator =
  kubeClient :: "SubjectAccessReview \<Rightarrow> clientError + bool"
  config :: "restConfig option"
  newImpersonateClientFunc :: "restConfig option \<Rightarrow> string \<Rightarrow> error + dynamicClient"

text \<open>The requests a validation sends, in the order it sends them.\<close>

datatype authCall =
    SARCreate SubjectAccessReview
  | NewImpersonateClient string
  | DryRunCreate GroupVersionResource string Unstructured

fun isDryRunCreate :: "authCall \<Rightarrow> bool" where
  "isDryRunCreate (DryRunCreate gvr namespace obj) = True"
| "isDryRunCreate (SARCreate r) = False"
| "isDryRunCreate (NewImpersonateClient u) = False"

definition defaultNewImpersonateClient ::
  "(restConfig \<Rightarrow> string \<Rightarrow> error + dynamicClient) \<Rightarrow> restConfig option \<Rightarrow> string \<Rightarrow>
   error + dynamicClient" where
  "defaultNewImpersonateClient newForConfig cfg user =
     (case cfg of
        None \<Rightarrow> Inl (Errorf ''kube config should not be nil'')
      | Some c \<Rightarrow> newForConfig c user)"

definition username :: "string \<Rightarrow> string \<Rightarrow> string" where
  "username saNamespace' saName' = ''system:serviceaccount:'' @ saNamespace' @ '':'' @ saName'"

definition groups :: "string \<Rightarrow> string list" where
  "groups saNamespace' =
     [''system:serviceaccounts'', ''system:authenticated'',
      ''system:serviceaccounts:'' @ saNamespace']"

definition buildSubjectAccessReviews ::
  "string \<Rightarrow> string \<Rightarrow> ResourceAttributes \<Rightarrow> string list \<Rightarrow> SubjectAccessReview list" where
  "buildSubjectAccessReviews saNamespace' saName' resource verbs =
     map (\<lambda>verb.
            \<lparr>sarResourceAttributes =
               \<lparr>raNamespace = raNamespace resource, raVerb = verb, raGroup = raGroup resource,
                raVersion = raVersion resource, raResource = raResource resource,
                raSubresource = raSubresource resource, raName = raName resource\<rparr>,
             sarUser = username saNamespace' saName',
             sarGroups = groups saNamespace'\<rparr>) verbs"

fun validateBySubjectAccessReviews ::
  "(SubjectAccessReview \<Rightarrow> clientError + bool) \<Rightarrow> SubjectAccessReview list \<Rightarrow>
   (clientError + bool) \<times> authCall list" where
  "validateBySubjectAccessReviews client [] = (Inr True, [])"
| "validateBySubjectAccessReviews client (subjectAccessReview # rest) =
     (case client subjectAccessReview of
        Inl err \<Rightarrow> (Inl err, [SARCreate subjectAccessReview])
      | Inr allowed \<Rightarrow>
          if \<not> allowed then (Inr False, [SARCreate subjectAccessReview])
          else (case validateBySubjectAccessReviews client rest of
                  (r, calls) \<Rightarrow> (r, SARCreate subjectAccessReview # calls)))"

definition checkEscalation ::
  "sarValidator \<Rightarrow> ManifestWorkSubjectServiceAccount \<Rightarrow> GroupVersionResource \<Rightarrow> string \<Rightarrow>
   string \<Rightarrow> Unstructured \<Rightarrow> error option \<times> authCall list" where
  "checkEscalation v sa gvr namespace name obj =
     (let user = username (saNamespace sa) (saName sa)
      in case newImpersonateClientFunc v (config v) user of
           Inl err \<Rightarrow> (Some err, [NewImpersonateClient user])
         | Inr dynamicClient' \<Rightarrow>
             (let calls = [NewImpersonateClient user, DryRunCreate gvr namespace obj]
              in case dynamicClient' gvr namespace obj of
                   None \<Rightarrow> (None, calls)
                 | Some err \<Rightarrow>
                     if IsForbidden (ClientError err)
                     then (Some (NotAllowedError
                                   (''not allowed to apply the resource '' @ gvrGroup gvr @ '' ''
                                    @ gvrResource gvr @ '', '' @ namespace @ '' '' @ name
                                    @ '', error: permission escalation'')
                                   (60 * Second)), calls)
                     else if IsAlreadyExists (ClientError err) then (None, calls)
                     else (Some (ClientError err), calls)))"

text \<open>\<^verbatim>\<open>strings.ToLower\<close> on the ASCII letters; the only strings that reach it are the
  two action constants.\<close>

definition lowerChar :: "char \<Rightarrow> char" where
  "lowerChar c =
     (case map_of (zip ''ABCDEFGHIJKLMNOPQRSTUVWXYZ'' ''abcdefghijklmnopqrstuvwxyz'') c of
        Some l \<Rightarrow> l
      | None \<Rightarrow> c)"

definition ToLower :: "string \<Rightarrow> string" where
  "ToLower s = map lowerChar s"

definition notAllowedMessage ::
  "ExecuteAction \<Rightarrow> ResourceAttributes \<Rightarrow> string" where
  "notAllowedMessage action resource =
     ''not allowed to '' @ ToLower action @ '' the resource '' @ raGroup resource @ '' ''
     @ raResource resource @ '', '' @ raNamespace resource @ '' '' @ raName resource"

definition Validate ::
  "sarValidator \<Rightarrow> ManifestWorkExecutor option \<Rightarrow> GroupVersionResource \<Rightarrow> string \<Rightarrow> string \<Rightarrow>
   Unstructured \<Rightarrow> ExecuteAction \<Rightarrow> error option \<times> authCall list" where
  "Validate v executor gvr namespace name obj action =
     (case executor of
        None \<Rightarrow> (None, [])
      | Some ex \<Rightarrow>
          if subjectType (Subject ex) \<noteq> ExecutorSubjectTypeServiceAccount
          then (Some (Errorf (''only support '' @ ExecutorSubjectTypeServiceAccount
                              @ '' type for the executor'')), [])
          else
            (case ServiceAccount (Subject ex) of
               None \<Rightarrow> (Some (Errorf ''the executor service account is nil''), [])
             | Some sa \<Rightarrow>
                 (case (if action = ApplyAction
                        then Some [''create'', ''update'', ''patch'', ''get'']
                        else if action = DeleteAction then Some [''delete'']
                        else None) of
                    None \<Rightarrow> (Some (Errorf (''execute action '' @ action @ '' is invalid'')), [])
                  | Some verbs \<Rightarrow>
                      (let resource =
                             \<lparr>raNamespace = namespace, raVerb = [], raGroup = gvrGroup gvr,
                              raVersion = gvrVersion gvr, raResource = gvrResource gvr,
                              raSubresource = [], raName = name\<rparr>;
                           reviews = buildSubjectAccessReviews (saNamespace sa) (saName sa)
                                       resource verbs
                       in case validateBySubjectAccessReviews (kubeClient v) reviews of
                            (Inl err, calls) \<Rightarrow> (Some (ClientError err), calls)
                          | (Inr allowed, calls) \<Rightarrow>
                              if \<not> allowed
                              then (Some (NotAllowedError (notAllowedMessage action resource)
                                            (60 * Second)), calls)
                              else if action \<noteq> ApplyAction then (None, calls)
                              else if gvrGroup gvr \<noteq> ''rbac.authorization.k8s.io''
                              then (None, calls)
                              else if gvrResource gvr = ''roles''
                                      \<or> gvrResource gvr = ''rolebindings''
                                      \<or> gvrResource gvr = ''clusterroles''
                                      \<or> gvrResource gvr = ''clusterrolebindings''
                              then (case checkEscalation v sa gvr namespace name obj of
                                      (r, calls') \<Rightarrow> (r, calls @ calls'))
                              else (None, calls)))))"

section \<open>Applied-resource garbage collection (pkg/spoke/helper/helper.go)\<close>

text \<open>\<^verbatim>\<open>workapiv1.AppliedManifestResourceMeta\<close>: the embedded \<^verbatim>\<open>ResourceIdentifier\<close>,
  the version and the tracked UID.\<close>

record AppliedManifestResourceMeta =
  amGroup :: string
  amVersion :: string
  amResource :: string
  amNamespace :: string
  amName :: string
  amUID :: string

text \<open>\<^verbatim>\<open>IsOwnedBy\<close> (pkg/helper/helpers.go).\<close>

fun IsOwnedBy :: "OwnerReference \<Rightarrow> OwnerReference list \<Rightarrow> bool" where
  "IsOwnedBy myOwner [] = False"
| "IsOwnedBy myOwner (owner # rest) =
     (if ownerUID myOwner = ownerUID owner then True else IsOwnedBy myOwner rest)"

subsection \<open>\<^verbatim>\<open>resourcemerge.MergeOwnerRefs\<close> (openshift/library-go)\<close>

text \<open>
  Modelled from the spec: \<^verbatim>\<open>schema.ParseGroupVersion\<close>, used by the owner-reference
  match below, is defined in the k8s.io/apimachinery dependency and is not under src/.
  It splits an API version into group and version at the slash; more than one slash is
  an error (\<open>None\<close>).
\<close>

definition ParseGroupVersion :: "string \<Rightarrow> (string \<times> string) option" where
  "ParseGroupVersion gv =
     (if gv = [] \<or> gv = ''/'' then Some ([], [])
      else if count_list gv (CHR ''/'') = 0 then Some ([], gv)
      else if count_list gv (CHR ''/'') = 1
      then Some (takeWhile (\<lambda>c. c \<noteq> CHR ''/'') gv, tl (dropWhile (\<lambda>c. c \<noteq> CHR ''/'') gv))
      else None)"

text \<open>
  Modelled from the spec: \<^verbatim>\<open>ownerRefMatched\<close> of the openshift/library-go dependency
  is not under src/. It decides which entry of the current owner list a required owner
  reference stands for: name, kind and the group of the API version agree; the UID is
  not compared (the UID of a reference to remove carries the suffix).
\<close>

definition ownerRefMatched :: "OwnerReference \<Rightarrow> OwnerReference \<Rightarrow> bool" where
  "ownerRefMatched existing required =
     (if ownerName existing \<noteq> ownerName required then False
      else if ownerKind existing \<noteq> ownerKind required then False
      else (case ParseGroupVersion (ownerAPIVersion existing) of
              None \<Rightarrow> False
            | Some existingGV \<Rightarrow>
                (case ParseGroupVersion (ownerAPIVersion required) of
                   None \<Rightarrow> False
                 | Some requiredGV \<Rightarrow> fst existingGV = fst requiredGV)))"

text \<open>
  Modelled from the spec: the inner loop of \<^verbatim>\<open>resourcemerge.MergeOwnerRefs\<close>
  (openshift/library-go, not under src/): the first index whose entry matches, or the
  length of the list.
\<close>

fun existedIndex :: "OwnerReference \<Rightarrow> OwnerReference list \<Rightarrow> nat" where
  "existedIndex o' [] = 0"
| "existedIndex o' (e # es) = (if ownerRefMatched o' e then 0 else Suc (existedIndex o' es))"

text \<open>
  Modelled from the spec: \<^verbatim>\<open>resourcemerge.MergeOwnerRefs\<close>, to which
  \<^verbatim>\<open>ApplyOwnerReferences\<close> delegates, is defined in the openshift/library-go dependency
  and is not under src/. The spec has: patch the owner-reference list to remove only
  the agent's entry (an owner reference whose UID is suffixed to signal removal),
  merged against the current list, all other owners untouched. What these words leave
  open follows the library, as the repository's \<^verbatim>\<open>TestApplyOwnerReferences\<close> pins it
  ("add a owner", "append a owner", "remove a owner", "remove a non existing owner",
  "append an existing owner"): a required reference whose UID ends in \<^verbatim>\<open>-\<close> removes
  the first matching entry, and changes nothing when none matches; any other required
  reference is appended when none matches and replaces a matching entry that differs
  from it. The suffix is tested with \<^verbatim>\<open>strings.HasSuffix\<close>, so an empty UID is a
  reference to add.
\<close>

fun MergeOwnerRefs ::
  "bool \<Rightarrow> OwnerReference list \<Rightarrow> OwnerReference list \<Rightarrow> bool \<times> OwnerReference list" where
  "MergeOwnerRefs modified existing [] = (modified, existing)"
| "MergeOwnerRefs modified existing (o' # rest) =
     (let removeOwner = (ownerUID o' \<noteq> [] \<and> last (ownerUID o') = CHR ''-'');
          i = existedIndex o' existing
      in if i = length existing
         then (if \<not> removeOwner then MergeOwnerRefs True (existing @ [o']) rest
               else MergeOwnerRefs modified existing rest)
         else if removeOwner
         then MergeOwnerRefs True (take i existing @ drop (Suc i) existing) rest
         else if o' \<noteq> existing ! i then MergeOwnerRefs True (existing[i := o']) rest
         else MergeOwnerRefs modified existing rest)"

subsection \<open>The clients and the requests\<close>

text \<open>The merge patch \<^verbatim>\<open>ApplyOwnerReferences\<close> sends: it carries the UID, the resource
  version and the owner references, and nothing else.\<close>

record ownerPatch =
  patchUID :: string
  patchResourceVersion :: string
  patchOwnerReferences :: "OwnerReference list"

text \<open>The requests \<^verbatim>\<open>DeleteAppliedResources\<close> sends, in the order it sends them. A
  delete carries the UID precondition and the propagation policy.\<close>

datatype gcCall =
    GetCall GroupVersionResource string string
  | ValidateDeleteCall "ManifestWorkExecutor option" GroupVersionResource string string
  | PatchCall GroupVersionResource string string ownerPatch
  | DeleteCall GroupVersionResource string string string string
  | EventCall string string

fun isDeleteCall :: "gcCall \<Rightarrow> bool" where
  "isDeleteCall (DeleteCall gvr namespace name uid policy) = True"
| "isDeleteCall (GetCall gvr namespace name) = False"
| "isDeleteCall (ValidateDeleteCall executor gvr namespace name) = False"
| "isDeleteCall (PatchCall gvr namespace name patch) = False"
| "isDeleteCall (EventCall reason msg) = False"

fun isPatchCall :: "gcCall \<Rightarrow> bool" where
  "isPatchCall (PatchCall gvr namespace name patch) = True"
| "isPatchCall (GetCall gvr namespace name) = False"
| "isPatchCall (ValidateDeleteCall executor gvr namespace name) = False"
| "isPatchCall (DeleteCall gvr namespace name uid policy) = False"
| "isPatchCall (EventCall reason msg) = False"

text \<open>
  The collaborators of \<^verbatim>\<open>DeleteAppliedResources\<close>: the dynamic client (get, patch,
  delete) and the executor validator. Each answer may depend on the requests sent
  before it. \<^verbatim>\<open>validator.ValidateDelete\<close> is called by \<^verbatim>\<open>DeleteAppliedResources\<close> but
  the validator that defines it is not among the sources; its answer (\<^verbatim>\<open>nil\<close> or an
  error) is a parameter here.
\<close>

record gcClients =
  dynGet :: "gcCall list \<Rightarrow> GroupVersionResource \<Rightarrow> string \<Rightarrow> string \<Rightarrow> clientError + Unstructured"
  dynPatch :: "gcCall list \<Rightarrow> GroupVersionResource \<Rightarrow> string \<Rightarrow> string \<Rightarrow> ownerPatch \<Rightarrow>
               clientError option"
  dynDelete :: "gcCall list \<Rightarrow> GroupVersionResource \<Rightarrow> string \<Rightarrow> string \<Rightarrow> string \<Rightarrow> string \<Rightarrow>
                clientError option"
  ValidateDelete :: "gcCall list \<Rightarrow> ManifestWorkExecutor option \<Rightarrow> GroupVersionResource \<Rightarrow>
                     string \<Rightarrow> string \<Rightarrow> error option"

definition DeletePropagationBackground :: string where
  "DeletePropagationBackground = ''Background''"

subsection \<open>\<^verbatim>\<open>ApplyOwnerReferences\<close>\<close>

text \<open>
  The result is the returned error and the requests sent so far. \<^verbatim>\<open>meta.Accessor\<close>
  does not fail on an unstructured object and \<^verbatim>\<open>json.Marshal\<close> does not fail on the
  patch, so these two error returns have no branch.
\<close>

definition ApplyOwnerReferences ::
  "gcClients \<Rightarrow> gcCall list \<Rightarrow> GroupVersionResource \<Rightarrow> Unstructured \<Rightarrow> OwnerReference \<Rightarrow>
   error option \<times> gcCall list" where
  "ApplyOwnerReferences cl calls gvr existing requiredOwner =
     (case MergeOwnerRefs False (objOwnerReferences existing) [requiredOwner] of
        (modified, patchedOwner) \<Rightarrow>
          if \<not> modified then (None, calls)
          else
            (let patch = \<lparr>patchUID = objUID existing,
                          patchResourceVersion = objResourceVersion existing,
                          patchOwnerReferences = patchedOwner\<rparr>
             in (map_option ClientError
                   (dynPatch cl calls gvr (objNamespace existing) (objName existing) patch),
                 calls @ [PatchCall gvr (objNamespace existing) (objName existing) patch])))"

subsection \<open>\<^verbatim>\<open>DeleteAppliedResources\<close>\<close>

text \<open>The state of the loop: \<^verbatim>\<open>resourcesPendingFinalization\<close>, \<^verbatim>\<open>errs\<close> and the
  requests sent so far.\<close>

type_synonym gcState = "AppliedManifestResourceMeta list \<times> error list \<times> gcCall list"

definition resourceKey :: "GroupVersionResource \<Rightarrow> AppliedManifestResourceMeta \<Rightarrow> string" where
  "resourceKey gvr resource =
     gvrString gvr @ '' with key '' @ amNamespace resource @ ''/'' @ amName resource"

text \<open>
  The body of the loop for one resource, in two parts. \<^verbatim>\<open>cleanupOrDelete\<close> is the part
  after the permission check (from \<^verbatim>\<open>if len(existingOwner) > 1\<close> to the end of the
  body): it is reached when \<^verbatim>\<open>ValidateDelete\<close> returned \<^verbatim>\<open>nil\<close> and also, after the
  log line, when it returned a forbidden error.
\<close>

fun cleanupOrDelete ::
  "gcClients \<Rightarrow> string \<Rightarrow> OwnerReference \<Rightarrow> GroupVersionResource \<Rightarrow> Unstructured \<Rightarrow>
   gcState \<Rightarrow> AppliedManifestResourceMeta \<Rightarrow> gcState" where
  "cleanupOrDelete cl reason owner gvr u (pending, errs, calls) resource =
     (let ownerCopy = owner\<lparr>ownerUID := ownerUID owner @ ''-''\<rparr>;
          deletePolicy = DeletePropagationBackground
      in if length (objOwnerReferences u) > 1
         then (case ApplyOwnerReferences cl calls gvr u ownerCopy of
                 (result, calls') \<Rightarrow>
                   (case result of
                      None \<Rightarrow> (pending, errs, calls')
                    | Some err \<Rightarrow>
                        (pending,
                         errs @ [Wrapf (''failed to remove owner from resource ''
                                        @ resourceKey gvr resource) err],
                         calls')))
         else if amUID resource \<noteq> objUID u then (pending, errs, calls)
         else if (case objDeletionTimestamp u of None \<Rightarrow> False | Some t \<Rightarrow> t \<noteq> 0)
         then (pending @ [resource], errs, calls)
         else
           (let calls' = calls @ [DeleteCall gvr (amNamespace resource) (amName resource)
                                    (amUID resource) deletePolicy]
            in (case dynDelete cl calls gvr (amNamespace resource) (amName resource)
                       (amUID resource) deletePolicy of
                  None \<Rightarrow>
                    (pending @ [resource], errs,
                     calls' @ [EventCall ''ResourceDeleted''
                                 (''Deleted resource '' @ resourceKey gvr resource
                                  @ '' because '' @ reason @ ''.'')])
                | Some err \<Rightarrow>
                    if IsNotFound (ClientError err) then (pending, errs, calls')
                    else if IsConflict (ClientError err) then (pending, errs, calls')
                    else (pending,
                          errs @ [Wrapf (''failed to delete resource ''
                                         @ resourceKey gvr resource) (ClientError err)],
                          calls'))))"

fun deleteAppliedResource ::
  "gcClients \<Rightarrow> string \<Rightarrow> OwnerReference \<Rightarrow> ManifestWorkExecutor option \<Rightarrow> gcState \<Rightarrow>
   AppliedManifestResourceMeta \<Rightarrow> gcState" where
  "deleteAppliedResource cl reason owner executor (pending, errs, calls) resource =
     (let gvr = \<lparr>gvrGroup = amGroup resource, gvrVersion = amVersion resource,
                 gvrResource = amResource resource\<rparr>;
          calls1 = calls @ [GetCall gvr (amNamespace resource) (amName resource)]
      in (case dynGet cl calls gvr (amNamespace resource) (amName resource) of
            Inl err \<Rightarrow>
              if IsNotFound (ClientError err) then (pending, errs, calls1)
              else (pending,
                    errs @ [Wrapf (''failed to get resource '' @ resourceKey gvr resource)
                              (ClientError err)],
                    calls1)
          | Inr u \<Rightarrow>
              if \<not> IsOwnedBy owner (objOwnerReferences u) then (pending, errs, calls1)
              else
                (let calls2 = calls1 @ [ValidateDeleteCall executor gvr
                                          (amNamespace resource) (amName resource)]
                 in (case ValidateDelete cl calls1 executor gvr
                            (amNamespace resource) (amName resource) of
                       None \<Rightarrow>
                         cleanupOrDelete cl reason owner gvr u (pending, errs, calls2) resource
                     | Some err \<Rightarrow>
                         if \<not> IsForbidden err
                         then (pending,
                               errs @ [Wrapf (''failed to check delete permission for resource ''
                                              @ resourceKey gvr resource) err],
                               calls2)
                         else cleanupOrDelete cl reason owner gvr u (pending, errs, calls2)
                                resource))))"

fun deleteLoop ::
  "gcClients \<Rightarrow> string \<Rightarrow> OwnerReference \<Rightarrow> ManifestWorkExecutor option \<Rightarrow> gcState \<Rightarrow>
   AppliedManifestResourceMeta list \<Rightarrow> gcState" where
  "deleteLoop cl reason owner executor st [] = st"
| "deleteLoop cl reason owner executor st (resource # rest) =
     deleteLoop cl reason owner executor
       (deleteAppliedResource cl reason owner executor st resource) rest"

definition DeleteAppliedResources ::
  "gcClients \<Rightarrow> AppliedManifestResourceMeta list \<Rightarrow> string \<Rightarrow> OwnerReference \<Rightarrow>
   ManifestWorkExecutor option \<Rightarrow> gcState" where
  "DeleteAppliedResources cl resources reason owner executor =
     deleteLoop cl reason owner executor ([], [], []) resources"

section \<open>Concrete inputs\<close>

text \<open>A clock for concrete evaluations: the \<open>n\<close>-th reading is \<open>1000 + n\<close>.\<close>

definition tickClock :: clock where
  "tickClock n = 1000 + n"

text \<open>Conditions and records in the style of \<^verbatim>\<open>TestMergeStatusConditions\<close> ("remove old
  status condition") and \<^verbatim>\<open>TestMergeManifestConditions\<close>.\<close>

definition condOneOld :: Condition where
  "condOneOld = \<lparr>Type = ''one'', Status = ''False'', ObservedGeneration = 0,
     LastTransitionTime = 5, Reason = ''my-reason'', Message = ''my-message''\<rparr>"

definition condTwoOld :: Condition where
  "condTwoOld = \<lparr>Type = ''two'', Status = ''True'', ObservedGeneration = 0,
     LastTransitionTime = 6, Reason = ''my-reason'', Message = ''my-message''\<rparr>"

definition condOneFlipped :: Condition where
  "condOneFlipped = \<lparr>Type = ''one'', Status = ''True'', ObservedGeneration = 0,
     LastTransitionTime = 7, Reason = ''my-reason'', Message = ''my-message''\<rparr>"

definition condOneNew :: Condition where
  "condOneNew = \<lparr>Type = ''one'', Status = ''False'', ObservedGeneration = 0,
     LastTransitionTime = 9, Reason = ''my-reason'', Message = ''my-message''\<rparr>"

definition metaResource1 :: ManifestResourceMeta where
  "metaResource1 = \<lparr>Ordinal = 0, Group = [], Version = [], Kind = [],
     Resource = ''resource1'', Name = [], Namespace = []\<rparr>"

definition existingRecord :: ManifestCondition where
  "existingRecord = \<lparr>ResourceMeta = metaResource1, StatusFeedbacks = [],
     Conditions = [condOneOld, condTwoOld]\<rparr>"

definition freshRecord :: ManifestCondition where
  "freshRecord = \<lparr>ResourceMeta = metaResource1, StatusFeedbacks = [],
     Conditions = [condOneNew]\<rparr>"

definition recordOrd :: "int \<Rightarrow> Condition list \<Rightarrow> ManifestCondition" where
  "recordOrd n cs = \<lparr>ResourceMeta = metaResource1\<lparr>Ordinal := n\<rparr>, StatusFeedbacks = [],
     Conditions = cs\<rparr>"

text \<open>Clients, an executor and resources for the authorizer.\<close>

definition allowAll :: "SubjectAccessReview \<Rightarrow> clientError + bool" where
  "allowAll r = Inr True"

definition denyUpdate :: "SubjectAccessReview \<Rightarrow> clientError + bool" where
  "denyUpdate r = Inr (raVerb (sarResourceAttributes r) \<noteq> ''update'')"

definition forbiddenDryRun :: dynamicClient where
  "forbiddenDryRun gvr namespace obj = Some (StatusError StatusReasonForbidden 403 ''escalation'')"

definition acceptingDryRun :: dynamicClient where
  "acceptingDryRun gvr namespace obj = None"

definition newForConfigForbidden :: "restConfig \<Rightarrow> string \<Rightarrow> error + dynamicClient" where
  "newForConfigForbidden c user = Inr forbiddenDryRun"

definition newForConfigAccepting :: "restConfig \<Rightarrow> string \<Rightarrow> error + dynamicClient" where
  "newForConfigAccepting c user = Inr acceptingDryRun"

definition nilConfigValidator :: sarValidator where
  "nilConfigValidator =
     \<lparr>kubeClient = allowAll, config = None,
      newImpersonateClientFunc = defaultNewImpersonateClient newForConfigAccepting\<rparr>"

definition acceptingValidator :: sarValidator where
  "acceptingValidator =
     \<lparr>kubeClient = allowAll, config = Some ''https://spoke'',
      newImpersonateClientFunc = defaultNewImpersonateClient newForConfigAccepting\<rparr>"

definition escalationValidator :: sarValidator where
  "escalationValidator =
     \<lparr>kubeClient = allowAll, config = Some ''https://spoke'',
      newImpersonateClientFunc = defaultNewImpersonateClient newForConfigForbidden\<rparr>"

definition denyUpdateValidator :: sarValidator where
  "denyUpdateValidator =
     \<lparr>kubeClient = denyUpdate, config = Some ''https://spoke'',
      newImpersonateClientFunc = defaultNewImpersonateClient newForConfigAccepting\<rparr>"

definition testServiceAccount :: ManifestWorkSubjectServiceAccount where
  "testServiceAccount = \<lparr>saNamespace = ''cluster1'', saName = ''test-executor''\<rparr>"

definition testExecutor :: ManifestWorkExecutor where
  "testExecutor =
     \<lparr>Subject = \<lparr>subjectType = ''ServiceAccount'', ServiceAccount = Some testServiceAccount\<rparr>\<rparr>"

definition rolesGVR :: GroupVersionResource where
  "rolesGVR = \<lparr>gvrGroup = ''rbac.authorization.k8s.io'', gvrVersion = ''v1'',
     gvrResource = ''roles''\<rparr>"

definition configmapsGVR :: GroupVersionResource where
  "configmapsGVR = \<lparr>gvrGroup = [], gvrVersion = ''v1'', gvrResource = ''configmaps''\<rparr>"

definition roleObject :: Unstructured where
  "roleObject = \<lparr>objUID = [], objResourceVersion = [], objNamespace = ''cluster1'',
     objName = ''role1'', objOwnerReferences = [], objDeletionTimestamp = None\<rparr>"

text \<open>Owners, a tracked secret and clients for the garbage collection, in the style of
  \<^verbatim>\<open>TestDeleteAppliedResourcess\<close>.\<close>

definition agentOwner :: OwnerReference where
  "agentOwner = \<lparr>ownerAPIVersion = ''work.open-cluster-management.io/v1'',
     ownerKind = ''AppliedManifestWork'', ownerName = ''n1'', ownerUID = ''a'',
     ownerController = None, ownerBlockOwnerDeletion = None\<rparr>"

definition otherOwner :: OwnerReference where
  "otherOwner = \<lparr>ownerAPIVersion = ''work.open-cluster-management.io/v1'',
     ownerKind = ''AppliedManifestWork'', ownerName = ''n2'', ownerUID = ''b'',
     ownerController = None, ownerBlockOwnerDeletion = None\<rparr>"

definition renamedAgentOwner :: OwnerReference where
  "renamedAgentOwner = \<lparr>ownerAPIVersion = ''work.open-cluster-management.io/v1'',
     ownerKind = ''AppliedManifestWork'', ownerName = ''renamed'', ownerUID = ''a'',
     ownerController = None, ownerBlockOwnerDeletion = None\<rparr>"

definition sameNameOwner :: OwnerReference where
  "sameNameOwner = \<lparr>ownerAPIVersion = ''work.open-cluster-management.io/v1'',
     ownerKind = ''AppliedManifestWork'', ownerName = ''n1'', ownerUID = ''z'',
     ownerController = None, ownerBlockOwnerDeletion = None\<rparr>"

definition secretResource :: AppliedManifestResourceMeta where
  "secretResource = \<lparr>amGroup = [], amVersion = ''v1'', amResource = ''secrets'',
     amNamespace = ''ns1'', amName = ''n1'', amUID = ''ns1-n1''\<rparr>"

definition secretsGVR :: GroupVersionResource where
  "secretsGVR = \<lparr>gvrGroup = [], gvrVersion = ''v1'', gvrResource = ''secrets''\<rparr>"

definition secretOwnedBy :: "OwnerReference list \<Rightarrow> Unstructured" where
  "secretOwnedBy owners = \<lparr>objUID = ''ns1-n1'', objResourceVersion = ''7'',
     objNamespace = ''ns1'', objName = ''n1'', objOwnerReferences = owners,
     objDeletionTimestamp = None\<rparr>"

definition getSoleOwned ::
  "gcCall list \<Rightarrow> GroupVersionResource \<Rightarrow> string \<Rightarrow> string \<Rightarrow> clientError + Unstructured" where
  "getSoleOwned calls gvr namespace name = Inr (secretOwnedBy [agentOwner])"

definition getShared ::
  "gcCall list \<Rightarrow> GroupVersionResource \<Rightarrow> string \<Rightarrow> string \<Rightarrow> clientError + Unstructured" where
  "getShared calls gvr namespace name = Inr (secretOwnedBy [agentOwner, otherOwner])"

definition getRenamed ::
  "gcCall list \<Rightarrow> GroupVersionResource \<Rightarrow> string \<Rightarrow> string \<Rightarrow> clientError + Unstructured" where
  "getRenamed calls gvr namespace name = Inr (secretOwnedBy [renamedAgentOwner])"

definition getSameName ::
  "gcCall list \<Rightarrow> GroupVersionResource \<Rightarrow> string \<Rightarrow> string \<Rightarrow> clientError + Unstructured" where
  "getSameName calls gvr namespace name = Inr (secretOwnedBy [sameNameOwner])"

definition getRenamedShared ::
  "gcCall list \<Rightarrow> GroupVersionResource \<Rightarrow> string \<Rightarrow> string \<Rightarrow> clientError + Unstructured" where
  "getRenamedShared calls gvr namespace name = Inr (secretOwnedBy [renamedAgentOwner, otherOwner])"

definition getForeignFirst ::
  "gcCall list \<Rightarrow> GroupVersionResource \<Rightarrow> string \<Rightarrow> string \<Rightarrow> clientError + Unstructured" where
  "getForeignFirst calls gvr namespace name = Inr (secretOwnedBy [sameNameOwner, agentOwner])"

definition patchAccepted ::
  "gcCall list \<Rightarrow> GroupVersionResource \<Rightarrow> string \<Rightarrow> string \<Rightarrow> ownerPatch \<Rightarrow> clientError option" where
  "patchAccepted calls gvr namespace name patch = None"

definition deleteAccepted ::
  "gcCall list \<Rightarrow> GroupVersionResource \<Rightarrow> string \<Rightarrow> string \<Rightarrow> string \<Rightarrow> string \<Rightarrow>
   clientError option" where
  "deleteAccepted calls gvr namespace name uid policy = None"

definition validateAllowed ::
  "gcCall list \<Rightarrow> ManifestWorkExecutor option \<Rightarrow> GroupVersionResource \<Rightarrow> string \<Rightarrow> string \<Rightarrow>
   error option" where
  "validateAllowed calls executor gvr namespace name = None"

definition validateForbidden ::
  "gcCall list \<Rightarrow> ManifestWorkExecutor option \<Rightarrow> GroupVersionResource \<Rightarrow> string \<Rightarrow> string \<Rightarrow>
   error option" where
  "validateForbidden calls executor gvr namespace name =
     Some (ClientError (StatusError StatusReasonForbidden 403
             ''not allowed to delete the resource''))"

definition validateTimeout ::
  "gcCall list \<Rightarrow> ManifestWorkExecutor option \<Rightarrow> GroupVersionResource \<Rightarrow> string \<Rightarrow> string \<Rightarrow>
   error option" where
  "validateTimeout calls executor gvr namespace name =
     Some (ClientError (TransportError ''context deadline exceeded''))"

definition forbiddenSoleOwnedClients :: gcClients where
  "forbiddenSoleOwnedClients = \<lparr>dynGet = getSoleOwned, dynPatch = patchAccepted,
     dynDelete = deleteAccepted, ValidateDelete = validateForbidden\<rparr>"

definition timeoutSharedClients :: gcClients where
  "timeoutSharedClients = \<lparr>dynGet = getShared, dynPatch = patchAccepted,
     dynDelete = deleteAccepted, ValidateDelete = validateTimeout\<rparr>"

definition forbiddenSharedClients :: gcClients where
  "forbiddenSharedClients = \<lparr>dynGet = getShared, dynPatch = patchAccepted,
     dynDelete = deleteAccepted, ValidateDelete = validateForbidden\<rparr>"

definition renamedClients :: gcClients where
  "renamedClients = \<lparr>dynGet = getRenamed, dynPatch = patchAccepted,
     dynDelete = deleteAccepted, ValidateDelete = validateAllowed\<rparr>"

definition sameNameClients :: gcClients where
  "sameNameClients = \<lparr>dynGet = getSameName, dynPatch = patchAccepted,
     dynDelete = deleteAccepted, ValidateDelete = validateAllowed\<rparr>"

definition renamedSharedClients :: gcClients where
  "renamedSharedClients = \<lparr>dynGet = getRenamedShared, dynPatch = patchAccepted,
     dynDelete = deleteAccepted, ValidateDelete = validateAllowed\<rparr>"

definition foreignFirstClients :: gcClients where
  "foreignFirstClients = \<lparr>dynGet = getForeignFirst, dynPatch = patchAccepted,
     dynDelete = deleteAccepted, ValidateDelete = validateAllowed\<rparr>"

section \<open>Properties of the status condition merge\<close>

subsection \<open>Finding and setting one condition\<close>

lemma Find_Some_D:
  "FindStatusCondition cs t = Some i \<Longrightarrow> i < length cs \<and> Type (cs ! i) = t"
proof (induction cs arbitrary: i)
  case Nil
  then show ?case by simp
next
  case (Cons c cs)
  then show ?case by (cases "Type c = t") auto
qed

lemma Find_None_iff: "FindStatusCondition cs t = None \<longleftrightarrow> t \<notin> Type ` set cs"
  by (induction cs) auto

lemma Find_types_cong:
  "map Type cs = map Type cs' \<Longrightarrow> FindStatusCondition cs t = FindStatusCondition cs' t"
proof (induction cs arbitrary: cs')
  case Nil
  then show ?case by simp
next
  case (Cons c cs)
  then obtain d ds where "cs' = d # ds" by (cases cs') auto
  with Cons show ?case by auto
qed

lemma Find_append:
  "FindStatusCondition (cs @ [c]) t =
     (case FindStatusCondition cs t of
        Some i \<Rightarrow> Some i
      | None \<Rightarrow> if Type c = t then Some (length cs) else None)"
  by (induction cs) (auto split: option.splits)

lemma Find_distinct_nth:
  "distinct (map Type cs) \<Longrightarrow> c \<in> set cs \<Longrightarrow>
   \<exists>i. FindStatusCondition cs (Type c) = Some i \<and> cs ! i = c"
proof (induction cs)
  case Nil
  then show ?case by simp
next
  case (Cons d cs)
  show ?case
  proof (cases "c = d")
    case True
    then show ?thesis by simp
  next
    case False
    with Cons.prems have "c \<in> set cs" and "Type d \<noteq> Type c" by auto
    with Cons show ?thesis by auto
  qed
qed

lemma SetStatusCondition_types_found:
  "FindStatusCondition cs (Type c) = Some i \<Longrightarrow>
   map Type (fst (SetStatusCondition clk k cs c)) = map Type cs"
  by (frule Find_Some_D)
     (auto simp: SetStatusCondition_def Let_def map_update list_update_same_conv
           split: if_splits)

lemma SetStatusCondition_types_missing:
  "FindStatusCondition cs (Type c) = None \<Longrightarrow>
   map Type (fst (SetStatusCondition clk k cs c)) = map Type cs @ [Type c]"
  by (auto simp: SetStatusCondition_def)

lemma SetStatusCondition_names:
  "set (map Type (fst (SetStatusCondition clk k cs c))) = insert (Type c) (set (map Type cs))"
proof (cases "FindStatusCondition cs (Type c)")
  case None
  then show ?thesis using SetStatusCondition_types_missing[OF None, of clk k] by simp
next
  case (Some i)
  from Find_Some_D[OF Some] have "Type c \<in> set (map Type cs)"
    by (metis length_map nth_map nth_mem)
  then show ?thesis using SetStatusCondition_types_found[OF Some, of clk k] by auto
qed

lemma SetStatusCondition_prefix:
  "take (length cs) (map Type (fst (SetStatusCondition clk k cs c))) = map Type cs"
proof (cases "FindStatusCondition cs (Type c)")
  case None
  then show ?thesis using SetStatusCondition_types_missing[OF None, of clk k] by simp
next
  case (Some i)
  then show ?thesis using SetStatusCondition_types_found[OF Some, of clk k] by simp
qed

lemma SetStatusCondition_length:
  "length cs \<le> length (fst (SetStatusCondition clk k cs c))"
  by (auto simp: SetStatusCondition_def Let_def split: option.splits if_splits)

lemma setStatusConditions_names:
  "set (map Type (fst (setStatusConditions clk k m cs))) = set (map Type m) \<union> set (map Type cs)"
proof (induction cs arbitrary: k m)
  case Nil
  then show ?case by simp
next
  case (Cons c cs)
  obtain m' k' where s: "SetStatusCondition clk k m c = (m', k')" by (cases "SetStatusCondition clk k m c")
  have "set (map Type m') = insert (Type c) (set (map Type m))"
    using SetStatusCondition_names[of clk k m c] s by simp
  with Cons[of k' m'] s show ?case by auto
qed

lemma setStatusConditions_prefix:
  "take (length m) (map Type (fst (setStatusConditions clk k m cs))) = map Type m"
proof (induction cs arbitrary: k m)
  case Nil
  then show ?case by simp
next
  case (Cons c cs)
  obtain m' k' where s: "SetStatusCondition clk k m c = (m', k')" by (cases "SetStatusCondition clk k m c")
  have p: "take (length m) (map Type m') = map Type m"
    using SetStatusCondition_prefix[of m clk k c] s by simp
  have l: "length m \<le> length m'" using SetStatusCondition_length[of m clk k c] s by simp
  have "take (length m) (map Type (fst (setStatusConditions clk k' m' cs)))
        = take (length m) (take (length m') (map Type (fst (setStatusConditions clk k' m' cs))))"
    using l by (simp add: min_def)
  also have "\<dots> = take (length m) (map Type m')" using Cons[of m' k'] by simp
  finally show ?case using p s by simp
qed

lemma SetStatusCondition_other:
  assumes "Type c \<noteq> t" and "FindStatusCondition m t = Some i"
  shows "FindStatusCondition (fst (SetStatusCondition clk k m c)) t = Some i
         \<and> fst (SetStatusCondition clk k m c) ! i = m ! i"
proof (cases "FindStatusCondition m (Type c)")
  case None
  from Find_Some_D[OF assms(2)] have "i < length m" by simp
  then show ?thesis using None assms
    by (auto simp: SetStatusCondition_def Find_append nth_append)
next
  case (Some j)
  from Find_Some_D[OF Some] Find_Some_D[OF assms(2)] assms(1)
  have ij: "j \<noteq> i" by auto
  have ty: "map Type (fst (SetStatusCondition clk k m c)) = map Type m"
    by (rule SetStatusCondition_types_found[OF Some])
  have "fst (SetStatusCondition clk k m c) ! i = m ! i"
    using Some ij by (auto simp: SetStatusCondition_def Let_def split: if_splits)
  then show ?thesis using Find_types_cong[OF ty, of t] assms(2) by simp
qed

lemma SetStatusCondition_same:
  assumes "FindStatusCondition m (Type c) = Some i" and "Status c = Status (m ! i)"
  shows "FindStatusCondition (fst (SetStatusCondition clk k m c)) (Type c) = Some i
         \<and> LastTransitionTime (fst (SetStatusCondition clk k m c) ! i) = LastTransitionTime (m ! i)
         \<and> Status (fst (SetStatusCondition clk k m c) ! i) = Status (m ! i)"
proof -
  have ty: "map Type (fst (SetStatusCondition clk k m c)) = map Type m"
    by (rule SetStatusCondition_types_found[OF assms(1)])
  from Find_Some_D[OF assms(1)] have "i < length m" by simp
  then have "LastTransitionTime (fst (SetStatusCondition clk k m c) ! i) = LastTransitionTime (m ! i)
         \<and> Status (fst (SetStatusCondition clk k m c) ! i) = Status (m ! i)"
    using assms by (simp add: SetStatusCondition_def Let_def)
  then show ?thesis using Find_types_cong[OF ty, of "Type c"] assms(1) by simp
qed

lemma SetStatusCondition_noop:
  assumes "FindStatusCondition m (Type c) = Some i" and "m ! i = c"
  shows "SetStatusCondition clk k m c = (m, k)"
proof -
  have "c\<lparr>Reason := Reason c, Message := Message c, ObservedGeneration := ObservedGeneration c\<rparr> = c"
    by simp
  then show ?thesis using assms(1) assms(2)[symmetric]
    by (simp add: SetStatusCondition_def Let_def)
qed

lemma SetStatusCondition_mono: "k \<le> snd (SetStatusCondition clk k m c)"
  by (auto simp: SetStatusCondition_def Let_def split: option.splits)

subsection \<open>The loop of \<^verbatim>\<open>MergeStatusConditions\<close>\<close>

lemma setStatusConditions_stable:
  assumes "FindStatusCondition m t = Some i"
    and "\<forall>c\<in>set cs. Type c = t \<longrightarrow> Status c = Status (m ! i)"
  shows "FindStatusCondition (fst (setStatusConditions clk k m cs)) t = Some i
         \<and> LastTransitionTime (fst (setStatusConditions clk k m cs) ! i) = LastTransitionTime (m ! i)
         \<and> Status (fst (setStatusConditions clk k m cs) ! i) = Status (m ! i)"
  using assms
proof (induction cs arbitrary: k m)
  case Nil
  then show ?case by simp
next
  case (Cons c cs)
  obtain m' k' where s: "SetStatusCondition clk k m c = (m', k')"
    by (cases "SetStatusCondition clk k m c")
  have step: "FindStatusCondition m' t = Some i
      \<and> LastTransitionTime (m' ! i) = LastTransitionTime (m ! i) \<and> Status (m' ! i) = Status (m ! i)"
  proof (cases "Type c = t")
    case True
    with Cons.prems have "FindStatusCondition m (Type c) = Some i" "Status c = Status (m ! i)" by auto
    from SetStatusCondition_same[OF this, of clk k] s True show ?thesis by simp
  next
    case False
    from SetStatusCondition_other[OF False Cons.prems(1), of clk k] s show ?thesis by simp
  qed
  then have "\<forall>c\<in>set cs. Type c = t \<longrightarrow> Status c = Status (m' ! i)"
    using Cons.prems(2) by simp
  from Cons.IH[OF _ this, of k'] step s show ?case by simp
qed

lemma setStatusConditions_noop:
  "\<forall>c\<in>set cs. \<exists>i. FindStatusCondition m (Type c) = Some i \<and> m ! i = c \<Longrightarrow>
   setStatusConditions clk k m cs = (m, k)"
proof (induction cs)
  case Nil
  then show ?case by simp
next
  case (Cons c cs)
  then obtain i where "FindStatusCondition m (Type c) = Some i" "m ! i = c" by auto
  from SetStatusCondition_noop[OF this] Cons show ?case by simp
qed

lemma MergeStatusConditions_self:
  "distinct (map Type cs) \<Longrightarrow> MergeStatusConditions clk k cs cs = (cs, k)"
  unfolding MergeStatusConditions_def
  using Find_distinct_nth[of cs] by (simp add: setStatusConditions_noop)

lemma setStatusConditions_mono: "k \<le> snd (setStatusConditions clk k m cs)"
proof (induction cs arbitrary: k m)
  case Nil
  then show ?case by simp
next
  case (Cons c cs)
  obtain m' k' where s: "SetStatusCondition clk k m c = (m', k')"
    by (cases "SetStatusCondition clk k m c")
  with SetStatusCondition_mono[of k clk m c] have "k \<le> k'" by simp
  with Cons[of k' m'] s show ?case by simp
qed

subsection \<open>The indices and the loop of \<^verbatim>\<open>MergeManifestConditions\<close>\<close>

lemma buildIndices_metaIndex:
  "fst (buildIndices xs (mi, mwi, dup)) =
     mi ++ map_of (rev (map (\<lambda>c. (ResourceMeta c, c)) xs))"
proof (induction xs arbitrary: mi mwi dup)
  case Nil
  then show ?case by simp
next
  case (Cons c xs)
  have "mi(ResourceMeta c \<mapsto> c) ++ map_of (rev (map (\<lambda>c. (ResourceMeta c, c)) xs))
        = mi ++ map_of (rev (map (\<lambda>c. (ResourceMeta c, c)) (c # xs)))"
    by (simp add: map_add_upd_left fun_eq_iff map_add_def split: option.splits)
  then show ?case using Cons by (simp add: Let_def)
qed

lemma metaIndex_hit:
  assumes "distinct (map ResourceMeta xs)" and "r \<in> set xs"
  shows "fst (buildIndices xs (Map.empty, Map.empty, [])) (ResourceMeta r) = Some r"
proof -
  have d: "distinct (map fst (rev (map (\<lambda>c. (ResourceMeta c, c)) xs)))"
    using assms(1) by (simp add: rev_map[symmetric] comp_def)
  have "(ResourceMeta r, r) \<in> set (rev (map (\<lambda>c. (ResourceMeta c, c)) xs))"
    using assms(2) by auto
  with d have "map_of (rev (map (\<lambda>c. (ResourceMeta c, c)) xs)) (ResourceMeta r) = Some r"
    by (rule map_of_is_SomeI)
  then show ?thesis by (simp add: buildIndices_metaIndex)
qed

lemma metaIndex_miss:
  assumes "m \<notin> ResourceMeta ` set xs"
  shows "fst (buildIndices xs (Map.empty, Map.empty, [])) m = None"
proof -
  have "map_of (rev (map (\<lambda>c. (ResourceMeta c, c)) xs)) m = None"
    using assms by (simp add: map_of_eq_None_iff image_image)
  then show ?thesis by (simp add: buildIndices_metaIndex)
qed

lemma mergeOne_self:
  assumes "mi (ResourceMeta r) = Some r" and "distinct (map Type (Conditions r))"
  shows "mergeOne clk k mi mwi r = (r, k)"
  using assms by (simp add: mergeOne_def mergeManifestCondition_def MergeStatusConditions_self)

lemma mergeLoop_self:
  "\<forall>r\<in>set xs. mergeOne clk k mi mwi r = (r, k) \<Longrightarrow>
   mergeLoop clk k mi mwi merged xs = (merged @ xs, k)"
  by (induction xs arbitrary: merged) auto

lemma removeDuplicated_None:
  "m \<in> set dup \<or> mwi m = None \<Longrightarrow> removeDuplicated dup mwi m = None"
  by (induction dup arbitrary: mwi) auto

lemma buildIndices_zero:
  "mwi zeroResourceMeta = None \<Longrightarrow>
   fst (snd (buildIndices xs (mi, mwi, dup))) zeroResourceMeta = None"
  by (induction xs arbitrary: mi mwi dup) (auto simp: Let_def)

lemma buildIndices_seen:
  "m \<in> set dup \<Longrightarrow> m \<in> set (snd (snd (buildIndices xs (mi, mwi, dup))))"
  by (induction xs arbitrary: mi mwi dup) (auto simp: Let_def)

lemma buildIndices_again:
  "mwi m \<noteq> None \<Longrightarrow> c \<in> set xs \<Longrightarrow> resetOrdinal (ResourceMeta c) = m \<Longrightarrow>
   m \<noteq> zeroResourceMeta \<Longrightarrow> m \<in> set (snd (snd (buildIndices xs (mi, mwi, dup))))"
proof (induction xs arbitrary: mi mwi dup)
  case Nil
  then show ?case by simp
next
  case (Cons x xs)
  show ?case
  proof (cases "c = x")
    case True
    with Cons.prems show ?thesis by (simp add: Let_def buildIndices_seen)
  next
    case False
    with Cons.prems have "c \<in> set xs" by simp
    with Cons show ?thesis by (auto simp: Let_def)
  qed
qed

lemma buildIndices_twice:
  "i < j \<Longrightarrow> j < length xs \<Longrightarrow> resetOrdinal (ResourceMeta (xs ! i)) = m \<Longrightarrow>
   resetOrdinal (ResourceMeta (xs ! j)) = m \<Longrightarrow> m \<noteq> zeroResourceMeta \<Longrightarrow>
   m \<in> set (snd (snd (buildIndices xs (mi, mwi, dup))))"
proof (induction xs arbitrary: i j mi mwi dup)
  case Nil
  then show ?case by simp
next
  case (Cons x xs)
  from Cons.prems(1) obtain j' where j: "j = Suc j'" by (cases j) auto
  with Cons.prems have j': "j' < length xs" "resetOrdinal (ResourceMeta (xs ! j')) = m" by auto
  show ?case
  proof (cases i)
    case 0
    with Cons.prems have x: "resetOrdinal (ResourceMeta x) = m" by simp
    from j' have mem: "xs ! j' \<in> set xs" by simp
    show ?thesis
      using x Cons.prems(5) buildIndices_again[OF _ mem j'(2) Cons.prems(5)]
      by (simp add: Let_def)
  next
    case (Suc i')
    with Cons.prems j have "i' < j'" "resetOrdinal (ResourceMeta (xs ! i')) = m" by auto
    from Cons.IH[OF this(1) j'(1) this(2) j'(2) Cons.prems(5)] show ?thesis
      by (simp add: Let_def)
  qed
qed

lemma ambiguous_key_unindexed:
  assumes "i \<noteq> j" "i < length xs" "j < length xs"
    and "resetOrdinal (ResourceMeta (xs ! i)) = m" "resetOrdinal (ResourceMeta (xs ! j)) = m"
    and "buildIndices xs (Map.empty, Map.empty, []) = (mi, mwi, dup)"
  shows "removeDuplicated dup mwi m = None"
proof (cases "m = zeroResourceMeta")
  case True
  from buildIndices_zero[of Map.empty xs Map.empty "[]"] assms(6) True
  have "mwi m = None" by simp
  then show ?thesis by (simp add: removeDuplicated_None)
next
  case False
  have "m \<in> set dup"
  proof (cases "i < j")
    case True
    from buildIndices_twice[OF True assms(3,4,5) False, of Map.empty Map.empty "[]"] assms(6)
    show ?thesis by simp
  next
    case False
    with assms(1) have ji: "j < i" by simp
    from buildIndices_twice[OF ji assms(2) assms(5) assms(4) \<open>m \<noteq> zeroResourceMeta\<close>,
        of Map.empty Map.empty "[]"] assms(6)
    show ?thesis by simp
  qed
  then show ?thesis by (simp add: removeDuplicated_None)
qed

lemma stampConditions_mono: "k \<le> snd (stampConditions clk k cs)"
proof (induction cs arbitrary: k)
  case Nil
  then show ?case by simp
next
  case (Cons c cs)
  from Cons[of "Suc k"] show ?case by (simp add: split_def)
qed

lemma stampConditions_length: "length (fst (stampConditions clk k cs)) = length cs"
  by (induction cs arbitrary: k) (auto simp: split_def)

lemma stampConditions_nth:
  "q < length cs \<Longrightarrow>
   fst (stampConditions clk k cs) ! q = (cs ! q)\<lparr>LastTransitionTime := clk (k + q)\<rparr>"
proof (induction cs arbitrary: k q)
  case Nil
  then show ?case by simp
next
  case (Cons c cs)
  show ?case
  proof (cases q)
    case 0
    then show ?thesis by (simp add: split_def)
  next
    case (Suc q')
    with Cons.prems have "q' < length cs" by simp
    from Cons.IH[OF this, of "Suc k"] Suc show ?thesis by (simp add: split_def)
  qed
qed

lemma mergeOne_mono: "k \<le> snd (mergeOne clk k mi mwi r)"
  using stampConditions_mono[of k clk "Conditions r"]
    setStatusConditions_mono[of k clk]
  by (simp add: mergeOne_def mergeManifestCondition_def MergeStatusConditions_def Let_def
      split_def split: option.splits)

lemma mergeLoop_length:
  "length (fst (mergeLoop clk k mi mwi merged xs)) = length merged + length xs"
  by (induction xs arbitrary: k merged) (auto simp: split_def)

lemma mergeLoop_prefix:
  "q < length merged \<Longrightarrow> fst (mergeLoop clk k mi mwi merged xs) ! q = merged ! q"
  by (induction xs arbitrary: k merged) (auto simp: split_def nth_append)

lemma mergeLoop_nth:
  "p < length xs \<Longrightarrow>
   \<exists>k'\<ge>k. fst (mergeLoop clk k mi mwi merged xs) ! (length merged + p)
               = fst (mergeOne clk k' mi mwi (xs ! p))"
proof (induction xs arbitrary: k merged p)
  case Nil
  then show ?case by simp
next
  case (Cons x xs)
  obtain m k1 where s: "mergeOne clk k mi mwi x = (m, k1)"
    by (cases "mergeOne clk k mi mwi x")
  show ?case
  proof (cases p)
    case 0
    have "fst (mergeLoop clk k1 mi mwi (merged @ [m]) xs) ! length merged = m"
      using mergeLoop_prefix[of "length merged" "merged @ [m]" clk k1 mi mwi xs] by simp
    with s 0 show ?thesis by auto
  next
    case (Suc p')
    with Cons.prems have "p' < length xs" by simp
    from Cons.IH[OF this, of k1 "merged @ [m]"] obtain k' where
      k': "k1 \<le> k'"
      "fst (mergeLoop clk k1 mi mwi (merged @ [m]) xs) ! (length (merged @ [m]) + p')
         = fst (mergeOne clk k' mi mwi (xs ! p'))" by blast
    from mergeOne_mono[of k clk mi mwi x] s have "k \<le> k1" by simp
    with k' s Suc show ?thesis by (intro exI[of _ k']) simp
  qed
qed

lemma merge_example:
  "mergeManifestCondition tickClock 0 existingRecord freshRecord = (existingRecord, 0)"
  by (simp add: mergeManifestCondition_def MergeStatusConditions_def SetStatusCondition_def
      existingRecord_def freshRecord_def condOneOld_def condTwoOld_def condOneNew_def)

subsection \<open>Claims on the merge\<close>

text \<open>
  C1 (as stated): the condition list of a merged record holds exactly the condition
  names of the fresh record, so a name of the existing record that the fresh record
  lacks is dropped. The code does not do this: \<^verbatim>\<open>MergeStatusConditions\<close> starts from
  all existing conditions and only sets the fresh ones on top. On the input of the
  repository's test "remove old status condition" (existing \<open>one\<close>, \<open>two\<close>; fresh
  \<open>one\<close>) the merged names differ from the fresh names, \<open>two\<close> being kept, which
  is also what that test and the test "merge new" expect.
\<close>

theorem merged_names_exactly_fresh_counterexample:
  "set (map Type (Conditions (fst (mergeManifestCondition tickClock 0 existingRecord freshRecord))))
   \<noteq> set (map Type (Conditions freshRecord))"
  by (simp add: merge_example) (simp add: existingRecord_def freshRecord_def condOneOld_def condTwoOld_def condOneNew_def)

text \<open>
  C1 (amended): the condition names of a merged record are exactly the names of the
  existing record together with the names of the fresh record; the existing names
  come first, in their order. No existing name is dropped.
\<close>

theorem merged_names_existing_and_fresh:
  "set (map Type (Conditions (fst (mergeManifestCondition clk k condition newCondition))))
     = set (map Type (Conditions condition)) \<union> set (map Type (Conditions newCondition))
   \<and> take (length (Conditions condition))
        (map Type (Conditions (fst (mergeManifestCondition clk k condition newCondition))))
     = map Type (Conditions condition)"
proof -
  obtain cs k' where m: "setStatusConditions clk k (Conditions condition) (Conditions newCondition) = (cs, k')"
    by (cases "setStatusConditions clk k (Conditions condition) (Conditions newCondition)")
  have c: "Conditions (fst (mergeManifestCondition clk k condition newCondition)) = cs"
    using m by (simp add: mergeManifestCondition_def MergeStatusConditions_def)
  show ?thesis
    using setStatusConditions_names[of clk k "Conditions condition" "Conditions newCondition"]
      setStatusConditions_prefix[of "Conditions condition" clk k "Conditions newCondition"] m
    unfolding c by simp
qed

text \<open>
  C5: for a condition name present in the existing and in the fresh condition list of
  a matched record (names being unique within the fresh record, as the data model
  says), if the status is unchanged then the merged record has the condition at the
  position it had in the existing record, with the last-transition time of the
  existing condition and the same status. The time of the fresh condition and the
  clock play no part.
\<close>

theorem unchanged_status_keeps_transition_time:
  assumes "distinct (map Type (Conditions newCondition))"
    and "n \<in> set (Conditions newCondition)"
    and "FindStatusCondition (Conditions condition) (Type n) = Some i"
    and "Status n = Status (Conditions condition ! i)"
  shows "FindStatusCondition
           (Conditions (fst (mergeManifestCondition clk k condition newCondition))) (Type n) = Some i
       \<and> LastTransitionTime (Conditions (fst (mergeManifestCondition clk k condition newCondition)) ! i)
           = LastTransitionTime (Conditions condition ! i)
       \<and> Status (Conditions (fst (mergeManifestCondition clk k condition newCondition)) ! i)
           = Status (Conditions condition ! i)"
proof -
  have u: "\<forall>c\<in>set (Conditions newCondition). Type c = Type n \<longrightarrow> Status c = Status (Conditions condition ! i)"
  proof (intro ballI impI)
    fix c assume "c \<in> set (Conditions newCondition)" and "Type c = Type n"
    with assms(1,2) have "c = n" by (meson distinct_map inj_onD)
    with assms(4) show "Status c = Status (Conditions condition ! i)" by simp
  qed
  have c: "Conditions (fst (mergeManifestCondition clk k condition newCondition))
           = fst (setStatusConditions clk k (Conditions condition) (Conditions newCondition))"
    by (simp add: mergeManifestCondition_def MergeStatusConditions_def split: prod.splits)
  show ?thesis unfolding c by (rule setStatusConditions_stable[OF assms(3) u])
qed

theorem unchanged_status_keeps_transition_time_witness:
  "distinct (map Type (Conditions freshRecord))
   \<and> condOneNew \<in> set (Conditions freshRecord)
   \<and> FindStatusCondition (Conditions existingRecord) (Type condOneNew) = Some 0
   \<and> Status condOneNew = Status (Conditions existingRecord ! 0)
   \<and> LastTransitionTime (Conditions (fst (mergeManifestCondition tickClock 0 existingRecord freshRecord)) ! 0) = 5
   \<and> LastTransitionTime condOneNew = 9"
proof -
  have h1: "distinct (map Type (Conditions freshRecord))" by (simp add: freshRecord_def)
  have h2: "condOneNew \<in> set (Conditions freshRecord)" by (simp add: freshRecord_def)
  have h3: "FindStatusCondition (Conditions existingRecord) (Type condOneNew) = Some 0"
    by (simp add: existingRecord_def condOneNew_def condOneOld_def)
  have h4: "Status condOneNew = Status (Conditions existingRecord ! 0)"
    by (simp add: existingRecord_def condOneNew_def condOneOld_def)
  from unchanged_status_keeps_transition_time[OF h1 h2 h3 h4, of tickClock 0]
  have "LastTransitionTime (Conditions (fst (mergeManifestCondition tickClock 0 existingRecord freshRecord)) ! 0) = 5"
    by (simp add: existingRecord_def condOneOld_def)
  with h1 h2 h3 h4 show ?thesis by (simp add: condOneNew_def)
qed

text \<open>
  C6: when two records of the existing list (at different positions) share the
  ordinal-free key of a fresh record, and the fresh record misses the exact index
  (no existing record has its full \<^verbatim>\<open>ResourceMeta\<close>), the fresh record is appended as
  a brand-new record: the output has one record per fresh record, the record at the
  fresh record's position has its \<^verbatim>\<open>ResourceMeta\<close> and status feedbacks, and each of its
  conditions is the fresh condition with the last-transition time replaced by a clock
  reading taken during the call (consecutive readings, one per condition).
\<close>

theorem ambiguous_key_is_brand_new:
  assumes "i \<noteq> j" and "i < length conditions" and "j < length conditions"
    and "resetOrdinal (ResourceMeta (conditions ! i)) = resetOrdinal (ResourceMeta (newConditions ! p))"
    and "resetOrdinal (ResourceMeta (conditions ! j)) = resetOrdinal (ResourceMeta (newConditions ! p))"
    and "p < length newConditions"
    and "ResourceMeta (newConditions ! p) \<notin> ResourceMeta ` set conditions"
  shows "length (fst (MergeManifestConditions clk k conditions newConditions)) = length newConditions
    \<and> (\<exists>k'\<ge>k.
         ResourceMeta (fst (MergeManifestConditions clk k conditions newConditions) ! p)
           = ResourceMeta (newConditions ! p)
       \<and> StatusFeedbacks (fst (MergeManifestConditions clk k conditions newConditions) ! p)
           = StatusFeedbacks (newConditions ! p)
       \<and> length (Conditions (fst (MergeManifestConditions clk k conditions newConditions) ! p))
           = length (Conditions (newConditions ! p))
       \<and> (\<forall>q<length (Conditions (newConditions ! p)).
            Conditions (fst (MergeManifestConditions clk k conditions newConditions) ! p) ! q
              = (Conditions (newConditions ! p) ! q)\<lparr>LastTransitionTime := clk (k' + q)\<rparr>))"
proof -
  obtain mi mwi dup where b: "buildIndices conditions (Map.empty, Map.empty, []) = (mi, mwi, dup)"
    by (cases "buildIndices conditions (Map.empty, Map.empty, [])")
  let ?mwi = "removeDuplicated dup mwi"
  let ?n = "newConditions ! p"
  have out: "fst (MergeManifestConditions clk k conditions newConditions)
             = fst (mergeLoop clk k mi ?mwi [] newConditions)"
    using b by (simp add: MergeManifestConditions_def)
  have miss1: "mi (ResourceMeta ?n) = None"
    using metaIndex_miss[OF assms(7)] b by simp
  have miss2: "?mwi (resetOrdinal (ResourceMeta ?n)) = None"
    by (rule ambiguous_key_unindexed[OF assms(1,2,3,4,5) b])
  have one: "fst (mergeOne clk k' mi ?mwi ?n)
             = ?n\<lparr>Conditions := fst (stampConditions clk k' (Conditions ?n))\<rparr>" for k'
    using miss1 miss2 by (simp add: mergeOne_def split_def)
  from mergeLoop_nth[OF assms(6), of k clk mi ?mwi "[]"] obtain k' where
    k': "k \<le> k'" "fst (mergeLoop clk k mi ?mwi [] newConditions) ! p = fst (mergeOne clk k' mi ?mwi ?n)"
    by auto
  have "length (fst (MergeManifestConditions clk k conditions newConditions)) = length newConditions"
    unfolding out by (simp add: mergeLoop_length)
  moreover have "\<exists>k'\<ge>k.
         ResourceMeta (fst (MergeManifestConditions clk k conditions newConditions) ! p)
           = ResourceMeta ?n
       \<and> StatusFeedbacks (fst (MergeManifestConditions clk k conditions newConditions) ! p)
           = StatusFeedbacks ?n
       \<and> length (Conditions (fst (MergeManifestConditions clk k conditions newConditions) ! p))
           = length (Conditions ?n)
       \<and> (\<forall>q<length (Conditions ?n).
            Conditions (fst (MergeManifestConditions clk k conditions newConditions) ! p) ! q
              = (Conditions ?n ! q)\<lparr>LastTransitionTime := clk (k' + q)\<rparr>)"
    unfolding out k'(2) one
    using k'(1) by (intro exI[of _ k']) (simp add: stampConditions_length stampConditions_nth)
  ultimately show ?thesis by blast
qed

theorem ambiguous_key_is_brand_new_witness:
  "(0::nat) \<noteq> 1
   \<and> resetOrdinal (ResourceMeta ([recordOrd 0 [condOneOld], recordOrd 1 [condTwoOld]] ! 0))
       = resetOrdinal (ResourceMeta ([recordOrd 2 [condOneNew]] ! 0))
   \<and> resetOrdinal (ResourceMeta ([recordOrd 0 [condOneOld], recordOrd 1 [condTwoOld]] ! 1))
       = resetOrdinal (ResourceMeta ([recordOrd 2 [condOneNew]] ! 0))
   \<and> ResourceMeta ([recordOrd 2 [condOneNew]] ! 0)
       \<notin> ResourceMeta ` set [recordOrd 0 [condOneOld], recordOrd 1 [condTwoOld]]
   \<and> length (fst (MergeManifestConditions tickClock 0
        [recordOrd 0 [condOneOld], recordOrd 1 [condTwoOld]] [recordOrd 2 [condOneNew]])) = 1
   \<and> 1000 \<le> LastTransitionTime (Conditions (fst (MergeManifestConditions tickClock 0
        [recordOrd 0 [condOneOld], recordOrd 1 [condTwoOld]] [recordOrd 2 [condOneNew]]) ! 0) ! 0)"
proof -
  let ?ex = "[recordOrd 0 [condOneOld], recordOrd 1 [condTwoOld]]"
  let ?fr = "[recordOrd 2 [condOneNew]]"
  have h1: "(0::nat) \<noteq> 1" by simp
  have h2: "(0::nat) < length ?ex" and h3: "(1::nat) < length ?ex" by simp_all
  have h4: "resetOrdinal (ResourceMeta (?ex ! 0)) = resetOrdinal (ResourceMeta (?fr ! 0))"
    by (simp add: recordOrd_def resetOrdinal_def)
  have h5: "resetOrdinal (ResourceMeta (?ex ! 1)) = resetOrdinal (ResourceMeta (?fr ! 0))"
    by (simp add: recordOrd_def resetOrdinal_def)
  have h6: "(0::nat) < length ?fr" by simp
  have h7: "ResourceMeta (?fr ! 0) \<notin> ResourceMeta ` set ?ex"
    by (simp add: recordOrd_def metaResource1_def)
  from ambiguous_key_is_brand_new[OF h1 h2 h3 h4 h5 h6 h7, of tickClock 0]
  have "length (fst (MergeManifestConditions tickClock 0 ?ex ?fr)) = 1
      \<and> 1000 \<le> LastTransitionTime (Conditions (fst (MergeManifestConditions tickClock 0 ?ex ?fr) ! 0) ! 0)"
    by (auto simp: recordOrd_def tickClock_def)
  with h1 h4 h5 h7 show ?thesis by blast
qed

text \<open>
  C9 (as stated): for every list \<open>X\<close> of records, merging \<open>X\<close> with itself returns
  \<open>X\<close>. Two lists show where it does not. In the first, two records have the same
  \<^verbatim>\<open>ResourceMeta\<close>: \<^verbatim>\<open>metaIndex\<close> keeps the later one, so the first record is merged with
  the second and comes out with the conditions of both. In the second, one record has
  two conditions of the same name with different status: both are set on the first of
  them, which takes the status and the timestamp of the second.
\<close>

theorem merge_idempotent_on_every_list_counterexample:
  "fst (MergeManifestConditions tickClock 0
          [recordOrd 0 [condOneOld], recordOrd 0 [condTwoOld]]
          [recordOrd 0 [condOneOld], recordOrd 0 [condTwoOld]])
     = [recordOrd 0 [condTwoOld, condOneOld], recordOrd 0 [condTwoOld]]
   \<and> [recordOrd 0 [condTwoOld, condOneOld], recordOrd 0 [condTwoOld]]
       \<noteq> [recordOrd 0 [condOneOld], recordOrd 0 [condTwoOld]]
   \<and> fst (MergeManifestConditions tickClock 0
            [recordOrd 0 [condOneOld, condOneFlipped]]
            [recordOrd 0 [condOneOld, condOneFlipped]])
       = [recordOrd 0 [condOneFlipped, condOneFlipped]]
   \<and> [recordOrd 0 [condOneFlipped, condOneFlipped]]
       \<noteq> [recordOrd 0 [condOneOld, condOneFlipped]]"
  by (simp add: MergeManifestConditions_def mergeOne_def mergeManifestCondition_def
      MergeStatusConditions_def SetStatusCondition_def resetOrdinal_def zeroResourceMeta_def
      recordOrd_def metaResource1_def condOneOld_def condTwoOld_def condOneFlipped_def Let_def)

text \<open>
  C9 (amended): merging a list of records with itself returns the list, with every
  record's \<^verbatim>\<open>ResourceMeta\<close>, status feedbacks and conditions (status, reason, message,
  last-transition time) unchanged, and no clock reading is taken (the reading count is
  returned unchanged), for every list whose records have pairwise different
  \<^verbatim>\<open>ResourceMeta\<close> (one record per manifest, the ordinal being its position) and unique
  condition names within each record, as the data model says. Go's distinction between
  a nil slice and an empty slice is not part of the model.
\<close>

theorem merge_idempotent:
  assumes "distinct (map ResourceMeta X)"
    and "\<forall>r\<in>set X. distinct (map Type (Conditions r))"
  shows "MergeManifestConditions clk k X X = (X, k)"
proof -
  obtain mi mwi dup where b: "buildIndices X (Map.empty, Map.empty, []) = (mi, mwi, dup)"
    by (cases "buildIndices X (Map.empty, Map.empty, [])")
  have "\<forall>r\<in>set X. mergeOne clk k mi (removeDuplicated dup mwi) r = (r, k)"
  proof
    fix r assume r: "r \<in> set X"
    from metaIndex_hit[OF assms(1) r] b have "mi (ResourceMeta r) = Some r" by simp
    moreover from assms(2) r have "distinct (map Type (Conditions r))" by simp
    ultimately show "mergeOne clk k mi (removeDuplicated dup mwi) r = (r, k)"
      by (rule mergeOne_self)
  qed
  from mergeLoop_self[OF this, of "[]"] b show ?thesis
    by (simp add: MergeManifestConditions_def)
qed

theorem merge_idempotent_witness:
  "distinct (map ResourceMeta [recordOrd 0 [condOneOld, condTwoOld], recordOrd 1 [condOneNew]])
   \<and> MergeManifestConditions tickClock 0
        [recordOrd 0 [condOneOld, condTwoOld], recordOrd 1 [condOneNew]]
        [recordOrd 0 [condOneOld, condTwoOld], recordOrd 1 [condOneNew]]
      = ([recordOrd 0 [condOneOld, condTwoOld], recordOrd 1 [condOneNew]], 0)"
proof -
  let ?X = "[recordOrd 0 [condOneOld, condTwoOld], recordOrd 1 [condOneNew]]"
  have h1: "distinct (map ResourceMeta ?X)" by (simp add: recordOrd_def metaResource1_def)
  have h2: "\<forall>r\<in>set ?X. distinct (map Type (Conditions r))"
    by (simp add: recordOrd_def condOneOld_def condTwoOld_def condOneNew_def)
  from merge_idempotent[OF h1 h2, of tickClock 0] h1 show ?thesis by blast
qed

section \<open>Properties of the executor authorization\<close>

lemma sar_no_dry_run:
  "\<not> list_ex isDryRunCreate (snd (validateBySubjectAccessReviews client reviews))"
  by (induction reviews) (auto split: sum.splits prod.splits)

lemma sar_denied:
  "i < length reviews \<Longrightarrow> \<forall>j<i. client (reviews ! j) = Inr True \<Longrightarrow>
   client (reviews ! i) = Inr False \<Longrightarrow>
   validateBySubjectAccessReviews client reviews = (Inr False, map SARCreate (take (Suc i) reviews))"
proof (induction reviews arbitrary: i)
  case Nil
  then show ?case by simp
next
  case (Cons r rs)
  show ?case
  proof (cases i)
    case 0
    with Cons.prems show ?thesis by simp
  next
    case (Suc i')
    with Cons.prems have "i' < length rs" "\<forall>j<i'. client (rs ! j) = Inr True"
      "client (rs ! i') = Inr False" "client r = Inr True" by auto
    with Cons.IH[of i'] Suc show ?thesis by simp
  qed
qed

lemma sar_all_allowed:
  "fst (validateBySubjectAccessReviews client reviews) = Inr True \<Longrightarrow>
   validateBySubjectAccessReviews client reviews = (Inr True, map SARCreate reviews)"
  by (induction reviews) (auto split: sum.splits prod.splits if_splits)

lemma sar_allowed_iff:
  "fst (validateBySubjectAccessReviews client reviews) = Inr True
   \<longleftrightarrow> list_all (\<lambda>r. client r = Inr True) reviews"
  by (induction reviews) (auto split: sum.splits prod.splits if_splits)

lemma checkEscalation_dry_run:
  "list_ex isDryRunCreate (snd (checkEscalation v sa gvr namespace name obj))
   \<longleftrightarrow> \<not> isl (newImpersonateClientFunc v (config v) (username (saNamespace sa) (saName sa)))"
  by (auto simp: checkEscalation_def Let_def split: sum.splits option.splits)

lemma ToLower_Apply: "ToLower ApplyAction = ''apply''"
  by (simp add: ToLower_def lowerChar_def ApplyAction_def)

lemma ToLower_Delete: "ToLower DeleteAction = ''delete''"
  by (simp add: ToLower_def lowerChar_def DeleteAction_def)

lemma Apply_neq_Delete: "DeleteAction \<noteq> ApplyAction"
  by (simp add: ApplyAction_def DeleteAction_def)

text \<open>
  C7: with an executor that is a service account and an action that is Apply or Delete,
  the access reviews are sent one per verb in the order of the verb list; when the
  reviews before position \<open>i\<close> are answered "allowed" and the one at position \<open>i\<close> is
  answered "not allowed", the requests sent are exactly the reviews up to and including
  position \<open>i\<close> (none for a later verb, and nothing else), and the result is a
  \<^verbatim>\<open>NotAllowedError\<close> whose requeue time is 60 seconds.
\<close>

theorem access_reviews_short_circuit:
  assumes "executor = Some ex"
    and "subjectType (Subject ex) = ExecutorSubjectTypeServiceAccount"
    and "ServiceAccount (Subject ex) = Some sa"
    and "action = ApplyAction \<or> action = DeleteAction"
    and "verbs = (if action = ApplyAction then [''create'', ''update'', ''patch'', ''get'']
                  else [''delete''])"
    and "resource = \<lparr>raNamespace = namespace, raVerb = [], raGroup = gvrGroup gvr,
                      raVersion = gvrVersion gvr, raResource = gvrResource gvr,
                      raSubresource = [], raName = name\<rparr>"
    and "reviews = buildSubjectAccessReviews (saNamespace sa) (saName sa) resource verbs"
    and "i < length verbs"
    and "\<forall>j<i. kubeClient v (reviews ! j) = Inr True"
    and "kubeClient v (reviews ! i) = Inr False"
  shows "Validate v executor gvr namespace name obj action
         = (Some (NotAllowedError (notAllowedMessage action resource) (60 * Second)),
            map SARCreate (take (Suc i) reviews))"
proof -
  have len: "i < length reviews" using assms(7,8) by (simp add: buildSubjectAccessReviews_def)
  have d: "validateBySubjectAccessReviews (kubeClient v) reviews
           = (Inr False, map SARCreate (take (Suc i) reviews))"
    by (rule sar_denied[OF len assms(9,10)])
  from assms(4) show ?thesis
  proof
    assume a: "action = ApplyAction"
    with assms(5) have "verbs = [''create'', ''update'', ''patch'', ''get'']" by simp
    with d assms(1,2,3,6,7) a show ?thesis by (simp add: Validate_def Let_def)
  next
    assume a: "action = DeleteAction"
    then have "action \<noteq> ApplyAction" by (simp add: ApplyAction_def DeleteAction_def)
    with assms(5) have "verbs = [''delete'']" by simp
    with d assms(1,2,3,6,7) a \<open>action \<noteq> ApplyAction\<close> show ?thesis
      by (simp add: Validate_def Let_def)
  qed
qed

theorem access_reviews_short_circuit_witness:
  "Validate denyUpdateValidator (Some testExecutor) configmapsGVR ''cluster1'' ''cm1'' roleObject
     ApplyAction
   = (Some (NotAllowedError ''not allowed to apply the resource  configmaps, cluster1 cm1''
              60000000000),
      map SARCreate (take 2 (buildSubjectAccessReviews ''cluster1'' ''test-executor''
        \<lparr>raNamespace = ''cluster1'', raVerb = [], raGroup = [], raVersion = ''v1'',
         raResource = ''configmaps'', raSubresource = [], raName = ''cm1''\<rparr>
        [''create'', ''update'', ''patch'', ''get''])))"
proof -
  let ?res = "\<lparr>raNamespace = ''cluster1'', raVerb = [], raGroup = gvrGroup configmapsGVR,
                 raVersion = gvrVersion configmapsGVR, raResource = gvrResource configmapsGVR,
                 raSubresource = [], raName = ''cm1''\<rparr>"
  let ?verbs = "(if ApplyAction = ApplyAction then [''create'', ''update'', ''patch'', ''get'']
                  else [''delete''])"
  let ?reviews = "buildSubjectAccessReviews (saNamespace testServiceAccount)
                    (saName testServiceAccount) ?res ?verbs"
  have h2: "subjectType (Subject testExecutor) = ExecutorSubjectTypeServiceAccount"
    by (simp add: testExecutor_def ExecutorSubjectTypeServiceAccount_def)
  have h3: "ServiceAccount (Subject testExecutor) = Some testServiceAccount"
    by (simp add: testExecutor_def)
  have h4: "ApplyAction = ApplyAction \<or> ApplyAction = DeleteAction" by simp
  have h8: "1 < length ?verbs" by simp
  have h9: "\<forall>j<1. kubeClient denyUpdateValidator (?reviews ! j) = Inr True"
    by (simp add: denyUpdateValidator_def denyUpdate_def buildSubjectAccessReviews_def)
  have h10: "kubeClient denyUpdateValidator (?reviews ! 1) = Inr False"
    by (simp add: denyUpdateValidator_def denyUpdate_def buildSubjectAccessReviews_def)
  from access_reviews_short_circuit[OF refl h2 h3 h4 refl refl refl h8 h9 h10, where obj = roleObject]
  show ?thesis
    by (simp add: notAllowedMessage_def ToLower_Apply configmapsGVR_def testServiceAccount_def
        Second_def numeral_2_eq_2)
qed

lemma AlreadyExists_not_Forbidden:
  assumes "IsAlreadyExists e"
  shows "\<not> IsForbidden e"
proof -
  obtain r c where rc: "reasonAndCodeForError e = (r, c)"
    by (cases "reasonAndCodeForError e")
  with assms have r: "r = ''AlreadyExists''"
    by (simp add: IsAlreadyExists_def ReasonForError_def StatusReasonAlreadyExists_def)
  show ?thesis
    unfolding IsForbidden_def rc r
    by (simp add: StatusReasonForbidden_def knownReasons_def)
qed

lemma Validate_returns_escalation_result:
  assumes "subjectType (Subject ex) = ExecutorSubjectTypeServiceAccount"
    and "ServiceAccount (Subject ex) = Some sa"
    and "gvrGroup gvr = ''rbac.authorization.k8s.io''"
    and "gvrResource gvr \<in> {''roles'', ''rolebindings'', ''clusterroles'', ''clusterrolebindings''}"
    and "reviews = buildSubjectAccessReviews (saNamespace sa) (saName sa)
                     \<lparr>raNamespace = namespace, raVerb = [], raGroup = gvrGroup gvr,
                      raVersion = gvrVersion gvr, raResource = gvrResource gvr,
                      raSubresource = [], raName = name\<rparr>
                     [''create'', ''update'', ''patch'', ''get'']"
    and "fst (validateBySubjectAccessReviews (kubeClient v) reviews) = Inr True"
  shows "Validate v (Some ex) gvr namespace name obj ApplyAction
         = (fst (checkEscalation v sa gvr namespace name obj),
            map SARCreate reviews @ snd (checkEscalation v sa gvr namespace name obj))"
  using assms sar_all_allowed[OF assms(6)]
  by (auto simp: Validate_def Let_def split_def)

text \<open>
  C4: in \<^verbatim>\<open>checkEscalation\<close>, once the impersonating client exists and its dry-run
  create fails with an error: a forbidden error gives a \<^verbatim>\<open>NotAllowedError\<close> with a
  requeue time of 60 seconds; an already-exists error gives \<^verbatim>\<open>nil\<close>, with no request
  after the dry-run create; any other error is returned as it is, which is not a
  \<^verbatim>\<open>NotAllowedError\<close>. \<^verbatim>\<open>Validate\<close> returns what \<^verbatim>\<open>checkEscalation\<close> returns
  (\<open>Validate_returns_escalation_result\<close>), so \<^verbatim>\<open>nil\<close> there is the overall result.
\<close>

theorem escalation_dry_run_outcomes:
  assumes "newImpersonateClientFunc v (config v) (username (saNamespace sa) (saName sa))
           = Inr impersonated"
    and "impersonated gvr namespace obj = Some err"
  shows "(IsForbidden (ClientError err) \<longrightarrow>
            checkEscalation v sa gvr namespace name obj
            = (Some (NotAllowedError
                       (''not allowed to apply the resource '' @ gvrGroup gvr @ '' ''
                        @ gvrResource gvr @ '', '' @ namespace @ '' '' @ name
                        @ '', error: permission escalation'') (60 * Second)),
               [NewImpersonateClient (username (saNamespace sa) (saName sa)),
                DryRunCreate gvr namespace obj]))
       \<and> (IsAlreadyExists (ClientError err) \<longrightarrow>
            checkEscalation v sa gvr namespace name obj
            = (None,
               [NewImpersonateClient (username (saNamespace sa) (saName sa)),
                DryRunCreate gvr namespace obj]))
       \<and> (\<not> IsForbidden (ClientError err) \<and> \<not> IsAlreadyExists (ClientError err) \<longrightarrow>
            checkEscalation v sa gvr namespace name obj
            = (Some (ClientError err),
               [NewImpersonateClient (username (saNamespace sa) (saName sa)),
                DryRunCreate gvr namespace obj]))"
  using assms AlreadyExists_not_Forbidden[of "ClientError err"]
  by (auto simp: checkEscalation_def Let_def)

theorem escalation_dry_run_outcomes_witness:
  "checkEscalation escalationValidator testServiceAccount rolesGVR ''cluster1'' ''role1'' roleObject
   = (Some (NotAllowedError
        ''not allowed to apply the resource rbac.authorization.k8s.io roles, cluster1 role1, error: permission escalation''
        60000000000),
      [NewImpersonateClient ''system:serviceaccount:cluster1:test-executor'',
       DryRunCreate rolesGVR ''cluster1'' roleObject])"
proof -
  have h1: "newImpersonateClientFunc escalationValidator (config escalationValidator)
              (username (saNamespace testServiceAccount) (saName testServiceAccount))
            = Inr forbiddenDryRun"
    by (simp add: escalationValidator_def defaultNewImpersonateClient_def newForConfigForbidden_def)
  have h2: "forbiddenDryRun rolesGVR ''cluster1'' roleObject
            = Some (StatusError StatusReasonForbidden 403 ''escalation'')"
    by (simp add: forbiddenDryRun_def)
  have h3: "IsForbidden (ClientError (StatusError StatusReasonForbidden 403 ''escalation''))"
    by (simp add: IsForbidden_def)
  from escalation_dry_run_outcomes[OF h1 h2, of "''role1''"] h3 show ?thesis
    by (simp add: rolesGVR_def username_def testServiceAccount_def Second_def)
qed

text \<open>
  C3 (as stated): a dry-run create is issued if and only if the action is Apply, the
  group is \<^verbatim>\<open>rbac.authorization.k8s.io\<close>, the resource is one of the four kinds and
  every access review passed. The "if" direction fails: \<^verbatim>\<open>checkEscalation\<close> first
  builds the impersonating client and returns its error when that fails. With a
  validator built on a nil configuration (\<^verbatim>\<open>defaultNewImpersonateClient\<close> then returns
  "kube config should not be nil"), an Apply of a role whose four reviews are all
  allowed sends no dry-run create.
\<close>

theorem dry_run_on_every_allowed_rbac_apply_counterexample:
  "ApplyAction = ApplyAction
   \<and> gvrGroup rolesGVR = ''rbac.authorization.k8s.io''
   \<and> gvrResource rolesGVR = ''roles''
   \<and> fst (validateBySubjectAccessReviews (kubeClient nilConfigValidator)
            (buildSubjectAccessReviews ''cluster1'' ''test-executor''
               \<lparr>raNamespace = ''cluster1'', raVerb = [], raGroup = ''rbac.authorization.k8s.io'',
                raVersion = ''v1'', raResource = ''roles'', raSubresource = [],
                raName = ''role1''\<rparr>
               [''create'', ''update'', ''patch'', ''get''])) = Inr True
   \<and> fst (Validate nilConfigValidator (Some testExecutor) rolesGVR ''cluster1'' ''role1''
            roleObject ApplyAction) = Some (Errorf ''kube config should not be nil'')
   \<and> \<not> list_ex isDryRunCreate
         (snd (Validate nilConfigValidator (Some testExecutor) rolesGVR ''cluster1'' ''role1''
                 roleObject ApplyAction))"
  by (simp add: Validate_def checkEscalation_def nilConfigValidator_def allowAll_def
      testExecutor_def testServiceAccount_def rolesGVR_def ExecutorSubjectTypeServiceAccount_def
      buildSubjectAccessReviews_def defaultNewImpersonateClient_def Let_def)

text \<open>
  C3 (amended): a dry-run create is issued if and only if the executor is set, its
  subject is a service account, the action is Apply, the group is
  \<^verbatim>\<open>rbac.authorization.k8s.io\<close>, the resource is one of roles, rolebindings,
  clusterroles, clusterrolebindings, every access review is answered "allowed", and the
  impersonating client for the executor could be built. For any action other than
  Apply (Delete among them), any other group or any other resource, no dry-run create
  is issued, whatever the access reviews answer.
\<close>

theorem dry_run_issued_iff:
  "(list_ex isDryRunCreate (snd (Validate v executor gvr namespace name obj action))
    \<longleftrightarrow>
    (case executor of
       None \<Rightarrow> False
     | Some ex \<Rightarrow>
         subjectType (Subject ex) = ExecutorSubjectTypeServiceAccount
         \<and> (case ServiceAccount (Subject ex) of
              None \<Rightarrow> False
            | Some sa \<Rightarrow>
                action = ApplyAction
                \<and> gvrGroup gvr = ''rbac.authorization.k8s.io''
                \<and> gvrResource gvr \<in> {''roles'', ''rolebindings'', ''clusterroles'',
                                       ''clusterrolebindings''}
                \<and> list_all (\<lambda>r. kubeClient v r = Inr True)
                     (buildSubjectAccessReviews (saNamespace sa) (saName sa)
                        \<lparr>raNamespace = namespace, raVerb = [], raGroup = gvrGroup gvr,
                         raVersion = gvrVersion gvr, raResource = gvrResource gvr,
                         raSubresource = [], raName = name\<rparr>
                        [''create'', ''update'', ''patch'', ''get''])
                \<and> \<not> isl (newImpersonateClientFunc v (config v)
                            (username (saNamespace sa) (saName sa))))))
   \<and> (action \<noteq> ApplyAction \<or> gvrGroup gvr \<noteq> ''rbac.authorization.k8s.io''
        \<or> gvrResource gvr \<notin> {''roles'', ''rolebindings'', ''clusterroles'',
                               ''clusterrolebindings''}
       \<longrightarrow> \<not> list_ex isDryRunCreate (snd (Validate v executor gvr namespace name obj action)))"
proof -
  let ?tr = "snd (Validate v executor gvr namespace name obj action)"
  let ?res = "\<lparr>raNamespace = namespace, raVerb = [], raGroup = gvrGroup gvr,
                 raVersion = gvrVersion gvr, raResource = gvrResource gvr,
                 raSubresource = [], raName = name\<rparr>"
  have main: "list_ex isDryRunCreate ?tr \<longleftrightarrow>
    (case executor of
       None \<Rightarrow> False
     | Some ex \<Rightarrow>
         subjectType (Subject ex) = ExecutorSubjectTypeServiceAccount
         \<and> (case ServiceAccount (Subject ex) of
              None \<Rightarrow> False
            | Some sa \<Rightarrow>
                action = ApplyAction
                \<and> gvrGroup gvr = ''rbac.authorization.k8s.io''
                \<and> gvrResource gvr \<in> {''roles'', ''rolebindings'', ''clusterroles'',
                                       ''clusterrolebindings''}
                \<and> list_all (\<lambda>r. kubeClient v r = Inr True)
                     (buildSubjectAccessReviews (saNamespace sa) (saName sa) ?res
                        [''create'', ''update'', ''patch'', ''get''])
                \<and> \<not> isl (newImpersonateClientFunc v (config v)
                            (username (saNamespace sa) (saName sa)))))"
  proof (cases executor)
    case None
    then show ?thesis by (simp add: Validate_def)
  next
    case (Some ex)
    show ?thesis
    proof (cases "subjectType (Subject ex) = ExecutorSubjectTypeServiceAccount")
      case False
      with Some show ?thesis by (simp add: Validate_def)
    next
      case sat: True
      show ?thesis
      proof (cases "ServiceAccount (Subject ex)")
        case None
        with Some sat show ?thesis by (simp add: Validate_def)
      next
        case (Some sa)
        note sa = Some
        show ?thesis
        proof (cases "action = ApplyAction")
          case False
          have "\<not> list_ex isDryRunCreate ?tr"
          proof (cases "action = DeleteAction")
            case True
            obtain r calls where v: "validateBySubjectAccessReviews (kubeClient v)
                (buildSubjectAccessReviews (saNamespace sa) (saName sa) ?res [''delete''])
                = (r, calls)" by (cases "validateBySubjectAccessReviews (kubeClient v)
                (buildSubjectAccessReviews (saNamespace sa) (saName sa) ?res [''delete''])")
            with sar_no_dry_run[of "kubeClient v"
                "buildSubjectAccessReviews (saNamespace sa) (saName sa) ?res [''delete'']"]
            have "\<not> list_ex isDryRunCreate calls" by simp
            with v True False \<open>executor = Some ex\<close> sat sa show ?thesis
              by (simp add: Validate_def Let_def split: sum.splits)
          next
            case nd: False
            with False \<open>executor = Some ex\<close> sat sa show ?thesis by (simp add: Validate_def)
          qed
          with False \<open>executor = Some ex\<close> sat sa show ?thesis by simp
        next
          case app: True
          let ?rs = "buildSubjectAccessReviews (saNamespace sa) (saName sa) ?res
                       [''create'', ''update'', ''patch'', ''get'']"
          obtain r calls where v: "validateBySubjectAccessReviews (kubeClient v) ?rs = (r, calls)"
            by (cases "validateBySubjectAccessReviews (kubeClient v) ?rs")
          with sar_no_dry_run[of "kubeClient v" ?rs]
          have nc: "\<not> list_ex isDryRunCreate calls" by simp
          have ra: "r = Inr True \<longleftrightarrow> list_all (\<lambda>r. kubeClient v r = Inr True) ?rs"
            using sar_allowed_iff[of "kubeClient v" ?rs] v by simp
          obtain r2 calls2 where ce: "checkEscalation v sa gvr namespace name obj = (r2, calls2)"
            by (cases "checkEscalation v sa gvr namespace name obj")
          with checkEscalation_dry_run[of v sa gvr namespace name obj]
          have c2: "list_ex isDryRunCreate calls2 \<longleftrightarrow>
                \<not> isl (newImpersonateClientFunc v (config v) (username (saNamespace sa) (saName sa)))"
            by simp
          have "list_ex isDryRunCreate ?tr \<longleftrightarrow>
                 (r = Inr True \<and> gvrGroup gvr = ''rbac.authorization.k8s.io''
                  \<and> gvrResource gvr \<in> {''roles'', ''rolebindings'', ''clusterroles'',
                                       ''clusterrolebindings''}
                  \<and> list_ex isDryRunCreate calls2)"
            using v nc ce app \<open>executor = Some ex\<close> sat sa
            by (cases r) (auto simp: Validate_def Let_def)
          with ra c2 app \<open>executor = Some ex\<close> sat sa show ?thesis by auto
        qed
      qed
    qed
  qed
  have scope: "action \<noteq> ApplyAction \<or> gvrGroup gvr \<noteq> ''rbac.authorization.k8s.io''
        \<or> gvrResource gvr \<notin> {''roles'', ''rolebindings'', ''clusterroles'',
                               ''clusterrolebindings''}
       \<longrightarrow> \<not> list_ex isDryRunCreate ?tr"
    unfolding main by (auto split: option.splits)
  from main scope show ?thesis by blast
qed

theorem dry_run_issued_iff_witness:
  "list_ex isDryRunCreate
     (snd (Validate acceptingValidator (Some testExecutor) rolesGVR ''cluster1'' ''role1''
             roleObject ApplyAction))
   \<and> \<not> list_ex isDryRunCreate
         (snd (Validate acceptingValidator (Some testExecutor) rolesGVR ''cluster1'' ''role1''
                 roleObject DeleteAction))
   \<and> \<not> list_ex isDryRunCreate
         (snd (Validate acceptingValidator (Some testExecutor) configmapsGVR ''cluster1'' ''cm1''
                 roleObject ApplyAction))"
proof -
  have a: "list_ex isDryRunCreate
     (snd (Validate acceptingValidator (Some testExecutor) rolesGVR ''cluster1'' ''role1''
             roleObject ApplyAction))"
    using dry_run_issued_iff[where v = acceptingValidator and executor = "Some testExecutor" and gvr = rolesGVR
        and namespace = "''cluster1''" and name = "''role1''" and obj = roleObject
        and action = ApplyAction]
    by (simp add: acceptingValidator_def allowAll_def testExecutor_def testServiceAccount_def
        rolesGVR_def ExecutorSubjectTypeServiceAccount_def buildSubjectAccessReviews_def
        defaultNewImpersonateClient_def newForConfigAccepting_def)
  have b: "\<not> list_ex isDryRunCreate
         (snd (Validate acceptingValidator (Some testExecutor) rolesGVR ''cluster1'' ''role1''
                 roleObject DeleteAction))"
    using dry_run_issued_iff[where v = acceptingValidator and executor = "Some testExecutor" and gvr = rolesGVR
        and namespace = "''cluster1''" and name = "''role1''" and obj = roleObject
        and action = DeleteAction] Apply_neq_Delete
    by blast
  have g: "gvrGroup configmapsGVR \<noteq> ''rbac.authorization.k8s.io''"
    by (simp add: configmapsGVR_def)
  have c: "\<not> list_ex isDryRunCreate
         (snd (Validate acceptingValidator (Some testExecutor) configmapsGVR ''cluster1'' ''cm1''
                 roleObject ApplyAction))"
    using dry_run_issued_iff[where v = acceptingValidator and executor = "Some testExecutor"
        and gvr = configmapsGVR and namespace = "''cluster1''" and name = "''cm1''"
        and obj = roleObject and action = ApplyAction] g
    by blast
  from a b c show ?thesis by blast
qed

section \<open>Properties of the applied-resource garbage collection\<close>

lemmas gc_inputs =
  agentOwner_def otherOwner_def renamedAgentOwner_def sameNameOwner_def secretResource_def
  secretsGVR_def secretOwnedBy_def getSoleOwned_def getShared_def getRenamed_def getSameName_def
  getRenamedShared_def getForeignFirst_def
  patchAccepted_def deleteAccepted_def validateAllowed_def validateForbidden_def
  validateTimeout_def forbiddenSoleOwnedClients_def timeoutSharedClients_def
  forbiddenSharedClients_def renamedClients_def sameNameClients_def renamedSharedClients_def
  foreignFirstClients_def testExecutor_def testServiceAccount_def

lemmas gc_eval =
  DeleteAppliedResources_def ApplyOwnerReferences_def ownerRefMatched_def ParseGroupVersion_def
  IsForbidden_def IsNotFound_def IsConflict_def StatusReasonUnknown_def StatusReasonForbidden_def
  StatusReasonNotFound_def StatusReasonConflict_def knownReasons_def resourceKey_def
  gvrString_def DeletePropagationBackground_def Let_def

lemma IsOwnedBy_iff:
  "IsOwnedBy myOwner existingOwners \<longleftrightarrow> (\<exists>o'\<in>set existingOwners. ownerUID o' = ownerUID myOwner)"
  by (induction existingOwners) auto

lemma existedIndex_le: "existedIndex o' existing \<le> length existing"
  by (induction existing) auto

lemma existedIndex_first:
  "i < length existing \<Longrightarrow> ownerRefMatched o' (existing ! i) \<Longrightarrow>
   \<forall>j<i. \<not> ownerRefMatched o' (existing ! j) \<Longrightarrow> existedIndex o' existing = i"
proof (induction existing arbitrary: i)
  case Nil
  then show ?case by simp
next
  case (Cons e es)
  show ?case
  proof (cases i)
    case 0
    with Cons.prems show ?thesis by simp
  next
    case (Suc i')
    with Cons.prems have "i' < length es" "ownerRefMatched o' (es ! i')"
      "\<forall>j<i'. \<not> ownerRefMatched o' (es ! j)" "\<not> ownerRefMatched o' e" by auto
    with Cons.IH[of i'] Suc show ?thesis by simp
  qed
qed

lemma MergeOwnerRefs_remove:
  "MergeOwnerRefs False existing [o'\<lparr>ownerUID := uid @ ''-''\<rparr>]
   = (if existedIndex (o'\<lparr>ownerUID := uid @ ''-''\<rparr>) existing < length existing
      then (True, take (existedIndex (o'\<lparr>ownerUID := uid @ ''-''\<rparr>) existing) existing
                  @ drop (Suc (existedIndex (o'\<lparr>ownerUID := uid @ ''-''\<rparr>) existing)) existing)
      else (False, existing))"
  using existedIndex_le[of "o'\<lparr>ownerUID := uid @ ''-''\<rparr>" existing]
  by (auto simp: Let_def)

lemma ApplyOwnerReferences_remove:
  "ApplyOwnerReferences cl calls gvr u (owner\<lparr>ownerUID := ownerUID owner @ ''-''\<rparr>)
   = (let i = existedIndex (owner\<lparr>ownerUID := ownerUID owner @ ''-''\<rparr>) (objOwnerReferences u);
          patch = \<lparr>patchUID = objUID u, patchResourceVersion = objResourceVersion u,
                   patchOwnerReferences = take i (objOwnerReferences u)
                                          @ drop (Suc i) (objOwnerReferences u)\<rparr>
      in if i < length (objOwnerReferences u)
         then (map_option ClientError (dynPatch cl calls gvr (objNamespace u) (objName u) patch),
               calls @ [PatchCall gvr (objNamespace u) (objName u) patch])
         else (None, calls))"
  unfolding ApplyOwnerReferences_def MergeOwnerRefs_remove by (simp add: Let_def)

lemma cleanupOrDelete_shared:
  assumes "length (objOwnerReferences u) > 1"
  shows "cleanupOrDelete cl reason owner gvr u (pending, errs, calls) resource
   = (let i = existedIndex (owner\<lparr>ownerUID := ownerUID owner @ ''-''\<rparr>) (objOwnerReferences u);
          patch = \<lparr>patchUID = objUID u, patchResourceVersion = objResourceVersion u,
                   patchOwnerReferences = take i (objOwnerReferences u)
                                          @ drop (Suc i) (objOwnerReferences u)\<rparr>
      in if i < length (objOwnerReferences u)
         then (pending,
               (case dynPatch cl calls gvr (objNamespace u) (objName u) patch of
                  None \<Rightarrow> errs
                | Some e \<Rightarrow> errs @ [Wrapf (''failed to remove owner from resource ''
                                            @ resourceKey gvr resource) (ClientError e)]),
               calls @ [PatchCall gvr (objNamespace u) (objName u) patch])
         else (pending, errs, calls))"
  using assms
  by (simp add: ApplyOwnerReferences_remove Let_def split: option.splits)

lemma cleanupOrDelete_calls:
  "\<exists>pending' errs' rest.
     cleanupOrDelete cl reason owner gvr u (pending, errs, calls) resource
     = (pending', errs', calls @ rest)"
proof (cases "length (objOwnerReferences u) > 1")
  case True
  from cleanupOrDelete_shared[OF True, of cl reason owner gvr pending errs calls resource]
  show ?thesis by (auto simp: Let_def)
next
  case False
  then show ?thesis by (auto simp: Let_def split: option.splits)
qed

lemma forbidden_denial_reaches_cleanup:
  assumes "dynGet cl calls \<lparr>gvrGroup = amGroup resource, gvrVersion = amVersion resource,
                             gvrResource = amResource resource\<rparr>
             (amNamespace resource) (amName resource) = Inr u"
    and "IsOwnedBy owner (objOwnerReferences u)"
    and "ValidateDelete cl
           (calls @ [GetCall \<lparr>gvrGroup = amGroup resource, gvrVersion = amVersion resource,
                              gvrResource = amResource resource\<rparr>
                       (amNamespace resource) (amName resource)])
           executor \<lparr>gvrGroup = amGroup resource, gvrVersion = amVersion resource,
                     gvrResource = amResource resource\<rparr>
           (amNamespace resource) (amName resource) = Some err"
    and "IsForbidden err"
  shows "deleteAppliedResource cl reason owner executor (pending, errs, calls) resource
         = cleanupOrDelete cl reason owner
             \<lparr>gvrGroup = amGroup resource, gvrVersion = amVersion resource,
              gvrResource = amResource resource\<rparr> u
             (pending, errs,
              calls @ [GetCall \<lparr>gvrGroup = amGroup resource, gvrVersion = amVersion resource,
                                gvrResource = amResource resource\<rparr>
                         (amNamespace resource) (amName resource),
                       ValidateDeleteCall executor
                         \<lparr>gvrGroup = amGroup resource, gvrVersion = amVersion resource,
                          gvrResource = amResource resource\<rparr>
                         (amNamespace resource) (amName resource)])
             resource"
  using assms by (simp add: Let_def)

text \<open>
  C2: on a forbidden answer of the delete authorization the delete call is to be
  skipped, the denial kept out of the returned errors, and the ownership cleanup
  reached. The code keeps the denial out of the errors and reaches the cleanup
  (\<open>forbidden_denial_reaches_cleanup\<close>), but after logging "is not allowed to delete" it
  falls through to the rest of the loop body: for a resource whose only owner is the
  agent, whose UID matches and which is not terminating, the delete call is sent, the
  resource is reported as pending finalization and the deletion event is recorded.
\<close>

theorem forbidden_delete_is_still_issued:
  "DeleteAppliedResources forbiddenSoleOwnedClients [secretResource] ''testing'' agentOwner
     (Some testExecutor)
   = ([secretResource], [],
       [GetCall secretsGVR ''ns1'' ''n1'',
        ValidateDeleteCall (Some testExecutor) secretsGVR ''ns1'' ''n1'',
        DeleteCall secretsGVR ''ns1'' ''n1'' ''ns1-n1'' ''Background'',
        EventCall ''ResourceDeleted''
          ''Deleted resource /v1, Resource=secrets with key ns1/n1 because testing.''])"
  by (simp add: gc_eval gc_inputs)

text \<open>
  C8 (as stated): for every tracked resource whose live object has owners besides the
  agent's, a single patch updates the owner references, changing only the agent's
  entry. Three inputs, each with a live object that carries the agent's UID and one
  more owner reference, show where the code does otherwise. First, the delete
  authorization fails with an error that is not a forbidden one: the error is
  recorded and no patch is sent. Second, the entry with the agent's UID has another
  name than the agent's owner reference, and the authorization allows: no patch is
  sent, the owner reference to remove being looked up by name, kind and API group.
  Third, an entry of another owner (another UID) with the agent's name, kind and group
  comes before the agent's entry, and the authorization allows: the patch removes that
  other owner's entry and keeps the agent's.
\<close>

theorem shared_owner_single_patch_counterexample:
  "IsOwnedBy agentOwner (objOwnerReferences (secretOwnedBy [agentOwner, otherOwner]))
   \<and> length (objOwnerReferences (secretOwnedBy [agentOwner, otherOwner])) = 2
   \<and> DeleteAppliedResources timeoutSharedClients [secretResource] ''testing'' agentOwner
        (Some testExecutor)
      = ([],
         [Wrapf ''failed to check delete permission for resource /v1, Resource=secrets with key ns1/n1''
            (ClientError (TransportError ''context deadline exceeded''))],
         [GetCall secretsGVR ''ns1'' ''n1'',
          ValidateDeleteCall (Some testExecutor) secretsGVR ''ns1'' ''n1''])
   \<and> IsOwnedBy agentOwner (objOwnerReferences (secretOwnedBy [renamedAgentOwner, otherOwner]))
   \<and> length (objOwnerReferences (secretOwnedBy [renamedAgentOwner, otherOwner])) = 2
   \<and> DeleteAppliedResources renamedSharedClients [secretResource] ''testing'' agentOwner
        (Some testExecutor)
      = ([], [],
         [GetCall secretsGVR ''ns1'' ''n1'',
          ValidateDeleteCall (Some testExecutor) secretsGVR ''ns1'' ''n1''])
   \<and> IsOwnedBy agentOwner (objOwnerReferences (secretOwnedBy [sameNameOwner, agentOwner]))
   \<and> length (objOwnerReferences (secretOwnedBy [sameNameOwner, agentOwner])) = 2
   \<and> DeleteAppliedResources foreignFirstClients [secretResource] ''testing'' agentOwner
        (Some testExecutor)
      = ([], [],
         [GetCall secretsGVR ''ns1'' ''n1'',
          ValidateDeleteCall (Some testExecutor) secretsGVR ''ns1'' ''n1'',
          PatchCall secretsGVR ''ns1'' ''n1''
            \<lparr>patchUID = ''ns1-n1'', patchResourceVersion = ''7'',
             patchOwnerReferences = [agentOwner]\<rparr>])"
  by (simp add: gc_eval gc_inputs)

text \<open>
  C8 (amended): take a tracked resource whose live object is fetched and carries more
  than one owner reference, among them the agent's entry: an entry with the agent
  owner's UID that is also the first entry with the agent owner's name, kind and API
  group. If the delete authorization answers \<^verbatim>\<open>nil\<close> or a forbidden error, no delete
  call is sent; exactly one merge patch is sent, which carries the object's UID, its
  resource version and the owner list without the agent's entry, every other owner
  reference unchanged and in order, and nothing else; the resource is not added to the
  pending list, and an error of the patch call is appended to the errors. If the delete
  authorization fails with any other error, that error is appended to the errors,
  neither a patch nor a delete call is sent, and the resource is not added to the
  pending list. Nothing is said of a live object whose entry with the agent's UID is
  not the first entry with the agent owner's name, kind and API group.
\<close>

theorem shared_owner_patch_only:
  assumes "gvr = \<lparr>gvrGroup = amGroup resource, gvrVersion = amVersion resource,
                   gvrResource = amResource resource\<rparr>"
    and "dynGet cl calls gvr (amNamespace resource) (amName resource) = Inr u"
    and "length (objOwnerReferences u) > 1"
    and "i < length (objOwnerReferences u)"
    and "ownerUID (objOwnerReferences u ! i) = ownerUID owner"
    and "ownerRefMatched (owner\<lparr>ownerUID := ownerUID owner @ ''-''\<rparr>) (objOwnerReferences u ! i)"
    and "\<forall>j<i. \<not> ownerRefMatched (owner\<lparr>ownerUID := ownerUID owner @ ''-''\<rparr>)
                    (objOwnerReferences u ! j)"
    and "checked = [GetCall gvr (amNamespace resource) (amName resource),
                    ValidateDeleteCall executor gvr (amNamespace resource) (amName resource)]"
    and "ValidateDelete cl (calls @ [GetCall gvr (amNamespace resource) (amName resource)])
           executor gvr (amNamespace resource) (amName resource) = denied"
    and "patch = \<lparr>patchUID = objUID u, patchResourceVersion = objResourceVersion u,
                   patchOwnerReferences = take i (objOwnerReferences u)
                                          @ drop (Suc i) (objOwnerReferences u)\<rparr>"
    and "patched = (pending,
                    (case dynPatch cl (calls @ checked) gvr (objNamespace u) (objName u) patch of
                       None \<Rightarrow> errs
                     | Some e \<Rightarrow> errs @ [Wrapf (''failed to remove owner from resource ''
                                                 @ resourceKey gvr resource) (ClientError e)]),
                    calls @ checked @ [PatchCall gvr (objNamespace u) (objName u) patch])"
  shows "deleteAppliedResource cl reason owner executor (pending, errs, calls) resource
         = (case denied of
              None \<Rightarrow> patched
            | Some err \<Rightarrow>
                if IsForbidden err then patched
                else (pending,
                      errs @ [Wrapf (''failed to check delete permission for resource ''
                                     @ resourceKey gvr resource) err],
                      calls @ checked))
       \<and> \<not> list_ex isDeleteCall (checked @ [PatchCall gvr (objNamespace u) (objName u) patch])
       \<and> length (filter isPatchCall
                   (checked @ [PatchCall gvr (objNamespace u) (objName u) patch])) = 1
       \<and> \<not> list_ex isPatchCall checked"
proof -
  let ?copy = "owner\<lparr>ownerUID := ownerUID owner @ ''-''\<rparr>"
  have idx: "existedIndex ?copy (objOwnerReferences u) = i"
    by (rule existedIndex_first[OF assms(4,6,7)])
  have own: "IsOwnedBy owner (objOwnerReferences u)"
    using assms(4,5) by (auto simp: IsOwnedBy_iff intro!: bexI[of _ "objOwnerReferences u ! i"])
  have c: "cleanupOrDelete cl reason owner gvr u (pending, errs, calls @ checked) resource = patched"
    using cleanupOrDelete_shared[OF assms(3), of cl reason owner gvr pending errs
        "calls @ checked" resource] idx assms(4,10,11)
    by (simp add: Let_def)
  have r: "deleteAppliedResource cl reason owner executor (pending, errs, calls) resource
         = (case denied of
              None \<Rightarrow> patched
            | Some err \<Rightarrow>
                if IsForbidden err then patched
                else (pending,
                      errs @ [Wrapf (''failed to check delete permission for resource ''
                                     @ resourceKey gvr resource) err],
                      calls @ checked))"
  proof (cases denied)
    case None
    with assms(1,2,8,9) own c show ?thesis by (simp add: Let_def)
  next
    case (Some err)
    with assms(1,2,8,9) own c show ?thesis by (simp add: Let_def)
  qed
  have "\<not> list_ex isDeleteCall (checked @ [PatchCall gvr (objNamespace u) (objName u) patch])"
    using assms(8) by simp
  moreover have "length (filter isPatchCall
                   (checked @ [PatchCall gvr (objNamespace u) (objName u) patch])) = 1"
    using assms(8) by simp
  moreover have "\<not> list_ex isPatchCall checked" using assms(8) by simp
  ultimately show ?thesis using r by blast
qed

theorem shared_owner_patch_only_witness:
  "deleteAppliedResource forbiddenSharedClients ''testing'' agentOwner (Some testExecutor)
     ([], [], []) secretResource
   = ([], [],
      [GetCall secretsGVR ''ns1'' ''n1'',
       ValidateDeleteCall (Some testExecutor) secretsGVR ''ns1'' ''n1'',
       PatchCall secretsGVR ''ns1'' ''n1''
         \<lparr>patchUID = ''ns1-n1'', patchResourceVersion = ''7'',
          patchOwnerReferences = [otherOwner]\<rparr>])
   \<and> deleteAppliedResource timeoutSharedClients ''testing'' agentOwner (Some testExecutor)
       ([], [], []) secretResource
     = ([],
        [Wrapf ''failed to check delete permission for resource /v1, Resource=secrets with key ns1/n1''
           (ClientError (TransportError ''context deadline exceeded''))],
        [GetCall secretsGVR ''ns1'' ''n1'',
         ValidateDeleteCall (Some testExecutor) secretsGVR ''ns1'' ''n1''])"
proof -
  let ?u = "secretOwnedBy [agentOwner, otherOwner]"
  let ?gvr = "\<lparr>gvrGroup = amGroup secretResource, gvrVersion = amVersion secretResource,
                gvrResource = amResource secretResource\<rparr>"
  let ?copy = "agentOwner\<lparr>ownerUID := ownerUID agentOwner @ ''-''\<rparr>"
  have h3: "length (objOwnerReferences ?u) > 1" by (simp add: secretOwnedBy_def)
  have h4: "0 < length (objOwnerReferences ?u)" by (simp add: secretOwnedBy_def)
  have h5: "ownerUID (objOwnerReferences ?u ! 0) = ownerUID agentOwner"
    by (simp add: secretOwnedBy_def)
  have h6: "ownerRefMatched ?copy (objOwnerReferences ?u ! 0)"
    by (simp add: secretOwnedBy_def agentOwner_def ownerRefMatched_def ParseGroupVersion_def)
  have h7: "\<forall>j<0. \<not> ownerRefMatched ?copy (objOwnerReferences ?u ! j)" by simp
  have g1: "dynGet forbiddenSharedClients [] ?gvr (amNamespace secretResource)
              (amName secretResource) = Inr ?u"
    by (simp add: forbiddenSharedClients_def getShared_def)
  have g2: "dynGet timeoutSharedClients [] ?gvr (amNamespace secretResource)
              (amName secretResource) = Inr ?u"
    by (simp add: timeoutSharedClients_def getShared_def)
  have a: "deleteAppliedResource forbiddenSharedClients ''testing'' agentOwner (Some testExecutor)
     ([], [], []) secretResource
   = ([], [],
      [GetCall secretsGVR ''ns1'' ''n1'',
       ValidateDeleteCall (Some testExecutor) secretsGVR ''ns1'' ''n1'',
       PatchCall secretsGVR ''ns1'' ''n1''
         \<lparr>patchUID = ''ns1-n1'', patchResourceVersion = ''7'',
          patchOwnerReferences = [otherOwner]\<rparr>])"
    using shared_owner_patch_only[OF refl g1 h3 h4 h5 h6 h7 refl refl refl refl,
        where reason = "''testing''" and pending = "[]" and errs = "[]"
          and executor = "Some testExecutor"]
    by (simp add: gc_inputs IsForbidden_def StatusReasonForbidden_def)
  have b: "deleteAppliedResource timeoutSharedClients ''testing'' agentOwner (Some testExecutor)
       ([], [], []) secretResource
     = ([],
        [Wrapf ''failed to check delete permission for resource /v1, Resource=secrets with key ns1/n1''
           (ClientError (TransportError ''context deadline exceeded''))],
        [GetCall secretsGVR ''ns1'' ''n1'',
         ValidateDeleteCall (Some testExecutor) secretsGVR ''ns1'' ''n1''])"
    using shared_owner_patch_only[OF refl g2 h3 h4 h5 h6 h7 refl refl refl refl,
        where reason = "''testing''" and pending = "[]" and errs = "[]"
          and executor = "Some testExecutor"]
    by (simp add: gc_inputs IsForbidden_def StatusReasonForbidden_def StatusReasonUnknown_def
        knownReasons_def resourceKey_def gvrString_def)
  from a b show ?thesis by blast
qed

text \<open>
  C10: \<^verbatim>\<open>IsOwnedBy\<close> is true exactly when some entry of the owner list has the UID of
  the agent's owner reference; name, kind and API version of the agent's reference
  play no part. In \<^verbatim>\<open>DeleteAppliedResources\<close>, once the live object is fetched: if some
  owner entry has the agent's UID (under whatever name) the resource is treated as
  owned, the delete authorization being the next request; otherwise (the agent's name
  with another UID included) it is skipped: no further request, no error, not pending.
\<close>

theorem ownership_by_uid_only:
  "(IsOwnedBy myOwner existingOwners
      \<longleftrightarrow> (\<exists>o'\<in>set existingOwners. ownerUID o' = ownerUID myOwner))
   \<and> IsOwnedBy (myOwner\<lparr>ownerName := n, ownerKind := kd, ownerAPIVersion := av\<rparr>) existingOwners
       = IsOwnedBy myOwner existingOwners
   \<and> (dynGet cl calls \<lparr>gvrGroup = amGroup resource, gvrVersion = amVersion resource,
                        gvrResource = amResource resource\<rparr>
         (amNamespace resource) (amName resource) = Inr u
       \<longrightarrow> (if \<exists>o'\<in>set (objOwnerReferences u). ownerUID o' = ownerUID owner
            then \<exists>pending' errs' rest.
                   deleteAppliedResource cl reason owner executor (pending, errs, calls) resource
                   = (pending', errs',
                      calls @ [GetCall \<lparr>gvrGroup = amGroup resource, gvrVersion = amVersion resource,
                                        gvrResource = amResource resource\<rparr>
                                 (amNamespace resource) (amName resource),
                               ValidateDeleteCall executor
                                 \<lparr>gvrGroup = amGroup resource, gvrVersion = amVersion resource,
                                  gvrResource = amResource resource\<rparr>
                                 (amNamespace resource) (amName resource)] @ rest)
            else deleteAppliedResource cl reason owner executor (pending, errs, calls) resource
                 = (pending, errs,
                    calls @ [GetCall \<lparr>gvrGroup = amGroup resource, gvrVersion = amVersion resource,
                                      gvrResource = amResource resource\<rparr>
                               (amNamespace resource) (amName resource)])))"
proof -
  let ?gvr = "\<lparr>gvrGroup = amGroup resource, gvrVersion = amVersion resource,
                gvrResource = amResource resource\<rparr>"
  let ?get = "GetCall ?gvr (amNamespace resource) (amName resource)"
  let ?val = "ValidateDeleteCall executor ?gvr (amNamespace resource) (amName resource)"
  have a: "IsOwnedBy myOwner existingOwners
      \<longleftrightarrow> (\<exists>o'\<in>set existingOwners. ownerUID o' = ownerUID myOwner)"
    by (rule IsOwnedBy_iff)
  have b: "IsOwnedBy (myOwner\<lparr>ownerName := n, ownerKind := kd, ownerAPIVersion := av\<rparr>) existingOwners
       = IsOwnedBy myOwner existingOwners"
    by (simp add: IsOwnedBy_iff)
  have c: "deleteAppliedResource cl reason owner executor (pending, errs, calls) resource
           = (pending, errs, calls @ [?get])"
    if "dynGet cl calls ?gvr (amNamespace resource) (amName resource) = Inr u"
      and "\<not> (\<exists>o'\<in>set (objOwnerReferences u). ownerUID o' = ownerUID owner)"
    using that by (simp add: Let_def IsOwnedBy_iff)
  have d: "\<exists>pending' errs' rest.
             deleteAppliedResource cl reason owner executor (pending, errs, calls) resource
             = (pending', errs', calls @ [?get, ?val] @ rest)"
    if g: "dynGet cl calls ?gvr (amNamespace resource) (amName resource) = Inr u"
      and o: "\<exists>o'\<in>set (objOwnerReferences u). ownerUID o' = ownerUID owner"
  proof -
    from o have own: "IsOwnedBy owner (objOwnerReferences u)" by (simp add: IsOwnedBy_iff)
    let ?calls2 = "calls @ [?get] @ [?val]"
    from cleanupOrDelete_calls[of cl reason owner ?gvr u pending errs ?calls2 resource]
    obtain p' e' rest where cl:
      "cleanupOrDelete cl reason owner ?gvr u (pending, errs, ?calls2) resource
       = (p', e', ?calls2 @ rest)" by blast
    show ?thesis
    proof (cases "ValidateDelete cl (calls @ [?get]) executor ?gvr (amNamespace resource)
                    (amName resource)")
      case None
      with g own cl show ?thesis by (simp add: Let_def)
    next
      case (Some err)
      with g own cl show ?thesis by (cases "IsForbidden err") (simp_all add: Let_def)
    qed
  qed
  from a b c d show ?thesis by (simp only: split: if_split) blast
qed

theorem ownership_by_uid_only_witness:
  "IsOwnedBy agentOwner [renamedAgentOwner]
   \<and> \<not> IsOwnedBy agentOwner [sameNameOwner]
   \<and> deleteAppliedResource sameNameClients ''testing'' agentOwner None ([], [], []) secretResource
       = ([], [], [GetCall secretsGVR ''ns1'' ''n1''])
   \<and> (\<exists>pending' errs' rest.
         deleteAppliedResource renamedClients ''testing'' agentOwner None ([], [], []) secretResource
         = (pending', errs',
            [GetCall secretsGVR ''ns1'' ''n1'', ValidateDeleteCall None secretsGVR ''ns1'' ''n1'']
            @ rest))"
proof -
  note t = ownership_by_uid_only[where myOwner = agentOwner and owner = agentOwner and resource = secretResource
      and calls = "[]" and pending = "[]" and errs = "[]" and reason = "''testing''"
      and executor = None]
  have a: "IsOwnedBy agentOwner [renamedAgentOwner]"
    using t[where existingOwners = "[renamedAgentOwner]"]
    by (simp add: agentOwner_def renamedAgentOwner_def)
  have b: "\<not> IsOwnedBy agentOwner [sameNameOwner]"
    using t[where existingOwners = "[sameNameOwner]"]
    by (simp add: agentOwner_def sameNameOwner_def)
  have g1: "dynGet sameNameClients [] \<lparr>gvrGroup = amGroup secretResource,
              gvrVersion = amVersion secretResource, gvrResource = amResource secretResource\<rparr>
              (amNamespace secretResource) (amName secretResource) = Inr (secretOwnedBy [sameNameOwner])"
    by (simp add: sameNameClients_def getSameName_def)
  have n1: "\<not> (\<exists>o'\<in>set (objOwnerReferences (secretOwnedBy [sameNameOwner])).
                ownerUID o' = ownerUID agentOwner)"
    by (simp add: secretOwnedBy_def sameNameOwner_def agentOwner_def)
  have c: "deleteAppliedResource sameNameClients ''testing'' agentOwner None ([], [], []) secretResource
       = ([], [], [GetCall secretsGVR ''ns1'' ''n1''])"
    using t[where cl = sameNameClients and u = "secretOwnedBy [sameNameOwner]"] g1 n1
    by (simp add: secretResource_def secretsGVR_def)
  have g2: "dynGet renamedClients [] \<lparr>gvrGroup = amGroup secretResource,
              gvrVersion = amVersion secretResource, gvrResource = amResource secretResource\<rparr>
              (amNamespace secretResource) (amName secretResource) = Inr (secretOwnedBy [renamedAgentOwner])"
    by (simp add: renamedClients_def getRenamed_def)
  have n2: "\<exists>o'\<in>set (objOwnerReferences (secretOwnedBy [renamedAgentOwner])).
                ownerUID o' = ownerUID agentOwner"
    by (simp add: secretOwnedBy_def renamedAgentOwner_def agentOwner_def)
  from t[where cl = renamedClients and u = "secretOwnedBy [renamedAgentOwner]",
        THEN conjunct2, THEN conjunct2, THEN mp, OF g2] n2
  have "\<exists>pending' errs' rest.
          deleteAppliedResource renamedClients ''testing'' agentOwner None ([], [], []) secretResource
          = (pending', errs',
             [] @ [GetCall \<lparr>gvrGroup = amGroup secretResource, gvrVersion = amVersion secretResource,
                             gvrResource = amResource secretResource\<rparr>
                     (amNamespace secretResource) (amName secretResource),
                   ValidateDeleteCall None
                     \<lparr>gvrGroup = amGroup secretResource, gvrVersion = amVersion secretResource,
                      gvrResource = amResource secretResource\<rparr>
                     (amNamespace secretResource) (amName secretResource)] @ rest)"
    by (simp only: if_True)
  then have d: "\<exists>pending' errs' rest.
         deleteAppliedResource renamedClients ''testing'' agentOwner None ([], [], []) secretResource
         = (pending', errs',
            [GetCall secretsGVR ''ns1'' ''n1'', ValidateDeleteCall None secretsGVR ''ns1'' ''n1'']
            @ rest)"
    by (simp only: secretResource_def secretsGVR_def AppliedManifestResourceMeta.simps append_Nil)
  from a b c d show ?thesis by blast
qed

end
